theory Spec2Isabelle
  imports Complex_Main "HOL-Library.Log_Nat" "HOL-Library.Word"
begin

section \<open>JavaScript values used by the protocol engine\<close>

text \<open>
  The engine is TypeScript. Its strings are modelled as \<^typ>\<open>string\<close>: sequences of code
  units restricted to the 8-bit (Latin-1) range. Its \<open>bigint\<close> values are \<^typ>\<open>int\<close>. Every
  \<open>throw\<close> is the \<open>Inl\<close> branch of a sum; an \<open>Error\<close> carries the message the source gives it,
  and the built-in exceptions are separate constructors.
\<close>

datatype js_error = Error string | SyntaxError | RangeError | TypeError | QuotaExceededError

subsection \<open>Strings: \<open>trim\<close>, \<open>toLowerCase\<close>, \<open>toUpperCase\<close>, \<open>padStart\<close>, \<open>startsWith\<close>\<close>

definition is_whitespace :: "char \<Rightarrow> bool" where
  \<comment> \<open>White space and line terminators of ECMAScript, within the 8-bit range:
      TAB, LF, VT, FF, CR, SPACE, NBSP.\<close>
  "is_whitespace c \<longleftrightarrow> (of_char c :: nat) \<in> {9, 10, 11, 12, 13, 32, 160}"

definition trim :: "string \<Rightarrow> string" where
  "trim s = rev (dropWhile is_whitespace (rev (dropWhile is_whitespace s)))"

definition lower_char :: "char \<Rightarrow> char" where
  \<comment> \<open>\<open>A\<close>-\<open>Z\<close> and the Latin-1 capitals (0xC0-0xDE without the multiplication sign 0xD7).\<close>
  "lower_char c =
     (let n = (of_char c :: nat)
      in if (65 \<le> n \<and> n \<le> 90) \<or> (192 \<le> n \<and> n \<le> 222 \<and> n \<noteq> 215)
         then char_of (n + 32) else c)"

definition toLowerCase :: "string \<Rightarrow> string" where
  "toLowerCase s = map lower_char s"

definition upper_char :: "char \<Rightarrow> string" where
  \<comment> \<open>\<open>a\<close>-\<open>z\<close> and the Latin-1 small letters (0xE0-0xFE without the division sign 0xF7);
      sharp s (0xDF) becomes \<open>SS\<close>. The upper-case forms of the micro sign (0xB5) and of
      y with diaeresis (0xFF) lie outside the 8-bit range; they are left in place here,
      which no caller below can observe: both the character and its upper-case form are
      outside \<open>[A-Z0-9]\<close>.\<close>
  "upper_char c =
     (let n = (of_char c :: nat)
      in if (97 \<le> n \<and> n \<le> 122) \<or> (224 \<le> n \<and> n \<le> 254 \<and> n \<noteq> 247)
         then [char_of (n - 32)]
         else if n = 223 then ''SS'' else [c])"

definition toUpperCase :: "string \<Rightarrow> string" where
  "toUpperCase s = concat (map upper_char s)"

definition padStart :: "nat \<Rightarrow> char \<Rightarrow> string \<Rightarrow> string" where
  "padStart n c s = replicate (n - length s) c @ s"

definition startsWith :: "string \<Rightarrow> string \<Rightarrow> bool" where
  "startsWith s p \<longleftrightarrow> take (length p) s = p"

subsection \<open>\<open>bigint\<close>: \<open>toString()\<close>, \<open>toString(16)\<close> and \<open>BigInt(string)\<close>\<close>

definition digit_char :: "nat \<Rightarrow> char" where
  "digit_char d = ''0123456789abcdef'' ! d"

fun digits10 :: "nat \<Rightarrow> string" where
  "digits10 n = (if n < 10 then [digit_char n] else digits10 (n div 10) @ [digit_char (n mod 10)])"

fun digits16 :: "nat \<Rightarrow> string" where
  "digits16 n = (if n < 16 then [digit_char n] else digits16 (n div 16) @ [digit_char (n mod 16)])"

declare digits10.simps [simp del] digits16.simps [simp del]

definition bigint_toString :: "int \<Rightarrow> string" where
  "bigint_toString i = (if i < 0 then CHR ''-'' # digits10 (nat (- i)) else digits10 (nat i))"

definition bigint_toString16 :: "int \<Rightarrow> string" where
  "bigint_toString16 i = (if i < 0 then CHR ''-'' # digits16 (nat (- i)) else digits16 (nat i))"

definition digit_value :: "char \<Rightarrow> nat option" where
  "digit_value c =
     (let n = (of_char c :: nat)
      in if 48 \<le> n \<and> n \<le> 57 then Some (n - 48)
         else if 97 \<le> n \<and> n \<le> 102 then Some (n - 87)
         else if 65 \<le> n \<and> n \<le> 70 then Some (n - 55)
         else None)"

definition is_digit :: "nat \<Rightarrow> char \<Rightarrow> bool" where
  "is_digit radix c \<longleftrightarrow> (case digit_value c of None \<Rightarrow> False | Some d \<Rightarrow> d < radix)"

definition digits_value :: "nat \<Rightarrow> string \<Rightarrow> nat" where
  "digits_value radix s = foldl (\<lambda>acc c. acc * radix + the (digit_value c)) 0 s"

definition parse_digits :: "nat \<Rightarrow> string \<Rightarrow> int option" where
  \<comment> \<open>One or more digits of the radix; no separators.\<close>
  "parse_digits radix s =
     (if s \<noteq> [] \<and> list_all (is_digit radix) s then Some (int (digits_value radix s)) else None)"

definition StringToBigInt :: "string \<Rightarrow> int option" where
  \<comment> \<open>The grammar of \<open>BigInt(string)\<close>: white space is trimmed; the empty string is zero;
      \<open>0x\<close>, \<open>0o\<close>, \<open>0b\<close> (either case) introduce unsigned hexadecimal, octal and binary
      digits; otherwise an optional sign and decimal digits. \<open>None\<close> is the SyntaxError.\<close>
  "StringToBigInt str =
     (let s = trim str
      in if s = [] then Some 0
         else if startsWith s ''0x'' \<or> startsWith s ''0X'' then parse_digits 16 (drop 2 s)
         else if startsWith s ''0o'' \<or> startsWith s ''0O'' then parse_digits 8 (drop 2 s)
         else if startsWith s ''0b'' \<or> startsWith s ''0B'' then parse_digits 2 (drop 2 s)
         else if hd s = CHR ''-'' then map_option uminus (parse_digits 10 (tl s))
         else if hd s = CHR ''+'' then parse_digits 10 (tl s)
         else parse_digits 10 s)"

definition BigInt_of_string :: "string \<Rightarrow> js_error + int" where
  "BigInt_of_string s = (case StringToBigInt s of None \<Rightarrow> Inl SyntaxError | Some i \<Rightarrow> Inr i)"

subsection \<open>\<open>number\<close>: IEEE 754 binary64 with round-to-nearest, ties to even\<close>

text \<open>
  A \<open>number\<close> is a finite double, an infinity or NaN. Finite doubles are the rationals
  they denote; every arithmetic result is rounded to the nearest double (53 significant
  bits, exponents down to the subnormal range, overflow to infinity). The sign of zero is
  not modelled: no computation below divides by a zero or prints one.
\<close>

datatype js_number = Finite rat | PosInfinity | NegInfinity | NaN

definition binary_exponent :: "rat \<Rightarrow> int" where
  \<comment> \<open>The \<open>e\<close> with \<open>2 powi e \<le> \<bar>x\<bar> < 2 powi (e + 1)\<close>, for \<open>x \<noteq> 0\<close>.\<close>
  "binary_exponent x =
     (let (n, d) = quotient_of \<bar>x\<bar>; e0 = bitlen n - bitlen d
      in if 2 powi e0 \<le> \<bar>x\<bar> then e0 else e0 - 1)"

definition round_half_even :: "rat \<Rightarrow> int" where
  "round_half_even m =
     (let f = \<lfloor>m\<rfloor>; d = m - of_int f
      in if d < 1 / 2 then f else if d > 1 / 2 then f + 1 else if even f then f else f + 1)"

definition round_double :: "rat \<Rightarrow> js_number" where
  "round_double x =
     (if x = 0 then Finite 0
      else let e = max (binary_exponent x) (- 1022);
               q = 2 powi (e - 52);
               r = of_int (round_half_even (\<bar>x\<bar> / q)) * q
           in if r \<ge> 2 powi 1024 then (if x > 0 then PosInfinity else NegInfinity)
              else Finite (sgn x * r))"

definition num_sgn :: "js_number \<Rightarrow> rat" where
  "num_sgn a = (case a of Finite x \<Rightarrow> sgn x | PosInfinity \<Rightarrow> 1 | NegInfinity \<Rightarrow> - 1 | NaN \<Rightarrow> 0)"

definition signed_infinity :: "rat \<Rightarrow> js_number" where
  "signed_infinity s = (if s < 0 then NegInfinity else PosInfinity)"

definition num_mul :: "js_number \<Rightarrow> js_number \<Rightarrow> js_number" where
  "num_mul a b =
     (case (a, b) of
        (Finite x, Finite y) \<Rightarrow> round_double (x * y)
      | _ \<Rightarrow> if a = NaN \<or> b = NaN \<or> num_sgn a * num_sgn b = 0 then NaN
             else signed_infinity (num_sgn a * num_sgn b))"

definition num_div :: "js_number \<Rightarrow> js_number \<Rightarrow> js_number" where
  "num_div a b =
     (case (a, b) of
        (Finite x, Finite y) \<Rightarrow>
          if y = 0 then (if x = 0 then NaN else signed_infinity x) else round_double (x / y)
      | (Finite x, _) \<Rightarrow> if b = NaN then NaN else Finite 0
      | (_, Finite y) \<Rightarrow> if a = NaN then NaN else signed_infinity (num_sgn a * (if y < 0 then - 1 else 1))
      | _ \<Rightarrow> NaN)"

definition num_less :: "js_number \<Rightarrow> js_number \<Rightarrow> bool" where
  "num_less a b =
     (case (a, b) of
        (NaN, _) \<Rightarrow> False
      | (_, NaN) \<Rightarrow> False
      | (Finite x, Finite y) \<Rightarrow> x < y
      | (NegInfinity, NegInfinity) \<Rightarrow> False
      | (NegInfinity, _) \<Rightarrow> True
      | (_, NegInfinity) \<Rightarrow> False
      | (PosInfinity, _) \<Rightarrow> False
      | (_, PosInfinity) \<Rightarrow> True)"

definition num_gt :: "js_number \<Rightarrow> js_number \<Rightarrow> bool" where
  "num_gt a b = num_less b a"

definition num_ge :: "js_number \<Rightarrow> js_number \<Rightarrow> bool" where
  "num_ge a b \<longleftrightarrow> a \<noteq> NaN \<and> b \<noteq> NaN \<and> \<not> num_less a b"

definition Math_round :: "js_number \<Rightarrow> js_number" where
  \<comment> \<open>Halves round towards positive infinity.\<close>
  "Math_round a = (case a of Finite x \<Rightarrow> Finite (of_int \<lfloor>x + 1 / 2\<rfloor>) | _ \<Rightarrow> a)"

definition Math_floor :: "js_number \<Rightarrow> js_number" where
  "Math_floor a = (case a of Finite x \<Rightarrow> Finite (of_int \<lfloor>x\<rfloor>) | _ \<Rightarrow> a)"

definition Number_of_bigint :: "int \<Rightarrow> js_number" where
  \<comment> \<open>\<open>Number(x.toString())\<close> for a bigint \<open>x\<close>: the decimal numeral denotes \<open>x\<close>, which
      is rounded to the nearest double.\<close>
  "Number_of_bigint i = round_double (of_int i)"

definition BigInt_of_number :: "js_number \<Rightarrow> js_error + int" where
  \<comment> \<open>\<open>BigInt(n)\<close> for a number: a RangeError unless \<open>n\<close> is an integer.\<close>
  "BigInt_of_number a =
     (case a of
        Finite x \<Rightarrow> if of_int \<lfloor>x\<rfloor> = x then Inr \<lfloor>x\<rfloor> else Inl RangeError
      | _ \<Rightarrow> Inl RangeError)"

section \<open>Field encoding for proof inputs (\<open>toFieldString\<close>, \<open>toHex32\<close>, \<open>formatMerkleRoot\<close>)\<close>

datatype field_input = FString string | FNumber js_number | FBigInt int

definition toFieldString :: "field_input \<Rightarrow> js_error + string" where
  "toFieldString v =
     (case v of
        FBigInt i \<Rightarrow> Inr (bigint_toString i)
      | FNumber n \<Rightarrow> (case BigInt_of_number n of Inl e \<Rightarrow> Inl e | Inr i \<Rightarrow> Inr (bigint_toString i))
      | FString s \<Rightarrow>
          (let trimmed = trim s
           in if trimmed = [] then Inr ''0''
              else if startsWith trimmed ''0x'' \<or> startsWith trimmed ''0X''
              then (case BigInt_of_string trimmed of
                      Inr i \<Rightarrow> Inr (bigint_toString i)
                    | Inl _ \<Rightarrow> Inr trimmed)
              else Inr trimmed))"

definition hex64 :: "int \<Rightarrow> string" where
  \<comment> \<open>\<open>'0x' + v.toString(16).padStart(64, '0')\<close>\<close>
  "hex64 v = ''0x'' @ padStart 64 (CHR ''0'') (bigint_toString16 v)"

definition toHex32 :: "string \<Rightarrow> js_error + string" where
  "toHex32 v = (case BigInt_of_string v of Inl e \<Rightarrow> Inl e | Inr asBigInt \<Rightarrow> Inr (hex64 asBigInt))"

definition formatMerkleRoot :: "string \<Rightarrow> string" where
  "formatMerkleRoot rootStr = (case toHex32 rootStr of Inr h \<Rightarrow> h | Inl _ \<Rightarrow> rootStr)"

section \<open>Premium tiers (\<open>lib/zk/commitment.ts\<close>)\<close>

record TierBoundary =
  tb_min :: int
  tb_max :: int
  tb_tier :: int
  tb_premium :: int

definition TIER_BOUNDARIES :: "TierBoundary list" where
  "TIER_BOUNDARIES =
     [\<lparr>tb_min = 1000000, tb_max = 99999999, tb_tier = 1, tb_premium = 1000000\<rparr>,
      \<lparr>tb_min = 100000000, tb_max = 499000000, tb_tier = 2, tb_premium = 3000000\<rparr>,
      \<lparr>tb_min = 500000000, tb_max = 999000000, tb_tier = 3, tb_premium = 7000000\<rparr>,
      \<lparr>tb_min = 1000000000, tb_max = 1999000000, tb_tier = 4, tb_premium = 13000000\<rparr>,
      \<lparr>tb_min = 2000000000, tb_max = 10000000000, tb_tier = 5, tb_premium = 20000000\<rparr>]"

record TierAndPremium =
  tp_tier :: int
  tp_premium :: int

fun scan_boundaries :: "TierBoundary list \<Rightarrow> int \<Rightarrow> js_error + TierAndPremium" where
  "scan_boundaries [] invoicePrice =
     Inl (Error (''Invoice price '' @ bigint_toString invoicePrice @ '' outside valid tier ranges''))"
| "scan_boundaries (boundary # rest) invoicePrice =
     (if invoicePrice \<ge> tb_min boundary \<and> invoicePrice \<le> tb_max boundary
      then Inr \<lparr>tp_tier = tb_tier boundary, tp_premium = tb_premium boundary\<rparr>
      else scan_boundaries rest invoicePrice)"

definition calculateTierAndPremium :: "int \<Rightarrow> js_error + TierAndPremium" where
  "calculateTierAndPremium invoicePrice = scan_boundaries TIER_BOUNDARIES invoicePrice"

definition out_of_range :: "int \<Rightarrow> js_error" where
  "out_of_range x = Error (''Invoice price '' @ bigint_toString x @ '' outside valid tier ranges'')"

section \<open>Commitment construction (\<open>buildCommitment\<close>)\<close>

record InvoiceData =
  orderNumber :: string
  purchasePriceUsd :: js_number
  purchaseDate :: string
  productId :: string

record PurchaseDetails =
  orderHash :: string
  invoicePrice :: int
  invoiceDate :: js_number
  productHash :: int
  salt :: int
  selectedTier :: int

record CommitmentResult =
  commitment :: string
  details :: PurchaseDetails
  cr_tier :: int
  cr_premium :: int

text \<open>
  The primitives the builder calls but does not define are parameters:
  \<^item> \<open>poseidon\<close>: the circomlibjs sponge followed by \<open>F.toObject\<close>, from a list of bigints to
    a bigint;
  \<^item> \<open>keccak\<close>: the 256-bit Keccak digest of the UTF-8 bytes of a string, which
    \<open>ethers.keccak256\<close> returns as \<open>0x\<close> and 64 lower-case hexadecimal digits;
  \<^item> \<open>date_getTime\<close>: \<open>new Date(s).getTime()\<close>, NaN for an invalid date;
  \<^item> \<open>saltArray\<close>: the 32 bytes that \<open>crypto.getRandomValues\<close> returns.
\<close>

definition ethers_keccak256 :: "(string \<Rightarrow> 256 word) \<Rightarrow> string \<Rightarrow> string" where
  "ethers_keccak256 keccak s = hex64 (uint (keccak s))"

definition byte_hex :: "8 word \<Rightarrow> string" where
  \<comment> \<open>\<open>b.toString(16).padStart(2, '0')\<close>\<close>
  "byte_hex b = padStart 2 (CHR ''0'') (digits16 (unat b))"

definition TOKEN_MULTIPLIER :: int where
  "TOKEN_MULTIPLIER = 1000000"

definition buildCommitment ::
  "(int list \<Rightarrow> int) \<Rightarrow> (string \<Rightarrow> 256 word) \<Rightarrow> (string \<Rightarrow> js_number) \<Rightarrow> 8 word list
     \<Rightarrow> InvoiceData \<Rightarrow> js_error + CommitmentResult" where
  "buildCommitment poseidon keccak date_getTime saltArray invoiceData =
     (let orderHash_v = ethers_keccak256 keccak (orderNumber invoiceData)
      in case BigInt_of_number
                (Math_round (num_mul (purchasePriceUsd invoiceData) (Number_of_bigint TOKEN_MULTIPLIER))) of
           Inl e \<Rightarrow> Inl e
         | Inr invoicePrice_v \<Rightarrow>
     (let invoiceDate_v = Math_floor (num_div (date_getTime (purchaseDate invoiceData)) (Finite 1000));
          productIdHash = ethers_keccak256 keccak (productId invoiceData)
      in case BigInt_of_string productIdHash of
           Inl e \<Rightarrow> Inl e
         | Inr productHashBigInt \<Rightarrow>
     (let productHash_v = poseidon [productHashBigInt];
          saltHex = concat (map byte_hex saltArray)
      in case BigInt_of_string (''0x'' @ saltHex) of
           Inl e \<Rightarrow> Inl e
         | Inr salt_v \<Rightarrow>
     (case calculateTierAndPremium invoicePrice_v of
           Inl e \<Rightarrow> Inl e
         | Inr tp \<Rightarrow>
     (let purchaseDetails =
            \<lparr>orderHash = orderHash_v, invoicePrice = invoicePrice_v, invoiceDate = invoiceDate_v,
             productHash = productHash_v, salt = salt_v, selectedTier = tp_tier tp\<rparr>
      in case BigInt_of_string (orderHash purchaseDetails) of
           Inl e \<Rightarrow> Inl e
         | Inr orderHashBig \<Rightarrow>
     (case BigInt_of_number (invoiceDate purchaseDetails) of
           Inl e \<Rightarrow> Inl e
         | Inr invoiceDateBig \<Rightarrow>
     (let commitment_v = poseidon
            [orderHashBig, invoicePrice purchaseDetails, invoiceDateBig,
             productHash purchaseDetails, salt purchaseDetails, selectedTier purchaseDetails];
          commitmentHex = hex64 commitment_v
      in case calculateTierAndPremium invoicePrice_v of
           Inl e \<Rightarrow> Inl e
         | Inr tp' \<Rightarrow>
           Inr \<lparr>commitment = commitmentHex, details = purchaseDetails,
                cr_tier = tp_tier tp, cr_premium = tp_premium tp'\<rparr>)))))))"

definition bytes_value :: "8 word list \<Rightarrow> nat" where
  \<comment> \<open>the big-endian number a byte sequence denotes\<close>
  "bytes_value bs = foldl (\<lambda>acc b. acc * 256 + unat b) 0 bs"

subsection \<open>A concrete run: the specification's invoice, with stand-ins for the hashes\<close>

definition scenario_invoice :: InvoiceData where
  \<comment> \<open>199.99 is the double \<open>879565321755689 / 2^42\<close>\<close>
  "scenario_invoice =
     \<lparr>orderNumber = ''A1'', purchasePriceUsd = Finite (879565321755689 / 4398046511104),
      purchaseDate = ''2023-07-22T04:26:40Z'', productId = ''X1''\<rparr>"

definition toy_poseidon :: "int list \<Rightarrow> int" where
  "toy_poseidon xs = sum_list xs mod 2 ^ 256"

definition toy_keccak :: "string \<Rightarrow> 256 word" where
  "toy_keccak s = of_nat (length s)"

section \<open>Oracle client and eligibility (\<open>checkEligibility\<close>)\<close>

record OraclePrice =
  op_id :: string
  op_name :: string
  op_currentPrice :: js_number
  op_basePrice :: js_number
  op_change :: js_number

record OraclePricesResponse =
  prices :: "OraclePrice list"
  opr_merkleRoot :: string
  opr_timestamp :: js_number

datatype proof_position = left | right

record OracleMerkleProof =
  mp_leaf :: string
  mp_currentPrice :: js_number
  mp_proof :: "(proof_position \<times> string) list"
  mp_siblings :: "string list"
  mp_pathIndices :: "js_number list"
  mp_root :: string
  mp_productName :: string
  mp_leafBigInt :: string
  mp_productHash :: string
  mp_productId :: string

record EligibilityResult =
  eligible :: bool
  dropPercentage :: js_number
  dropAmount :: string
  currentPrice :: string
  merkleRoot :: string
  er_proof :: OracleMerkleProof
  payoutAmount :: string

text \<open>
  The oracle service is a parameter: what \<open>GET /api/prices\<close> answers and what
  \<open>GET /api/merkle-proof/{id}\<close> answers for each identifier, each either the parsed body or
  the error that \<open>fetchJson\<close> throws. Console output is not modelled.
\<close>

record Oracle =
  getOraclePrices :: "js_error + OraclePricesResponse"
  getMerkleProof :: "string \<Rightarrow> js_error + OracleMerkleProof"

definition is_upper_alnum :: "char \<Rightarrow> bool" where
  \<comment> \<open>the character class \<open>[A-Z0-9]\<close>\<close>
  "is_upper_alnum c \<longleftrightarrow>
     (let n = (of_char c :: nat) in (65 \<le> n \<and> n \<le> 90) \<or> (48 \<le> n \<and> n \<le> 57))"

definition normalizeOracleProductId :: "string \<Rightarrow> string" where
  "normalizeOracleProductId v = trim (filter is_upper_alnum (toUpperCase v))"

definition matches_product :: "string \<Rightarrow> string \<Rightarrow> OraclePrice \<Rightarrow> bool" where
  \<comment> \<open>the predicate given to \<open>prices.find\<close>\<close>
  "matches_product normalizedInputId trimmedInputId price =
     (let normalizedPriceId = normalizeOracleProductId (op_id price)
      in if normalizedInputId \<noteq> [] then normalizedPriceId = normalizedInputId
         else toLowerCase (trim (op_id price)) = trimmedInputId)"

definition find_product :: "OraclePrice list \<Rightarrow> string \<Rightarrow> OraclePrice option" where
  \<comment> \<open>\<open>matchedProduct\<close>: the first catalog entry that the predicate accepts\<close>
  "find_product catalog pid =
     (let normalizedInputId = normalizeOracleProductId pid;
          trimmedInputId = toLowerCase (trim pid)
      in find (matches_product normalizedInputId trimmedInputId) catalog)"

definition product_not_found :: "string \<Rightarrow> js_error" where
  "product_not_found pid = Error (''Product '' @ pid @ '' not found in oracle catalog.'')"

definition drop_amount :: "int \<Rightarrow> int \<Rightarrow> int" where
  "drop_amount originalPrice currentPrice_v =
     (if originalPrice > currentPrice_v then originalPrice - currentPrice_v else 0)"

definition drop_percentage :: "int \<Rightarrow> int \<Rightarrow> js_number" where
  "drop_percentage originalPrice dropAmount_v =
     (let originalPriceNumber = Number_of_bigint originalPrice;
          dropAmountNumber = Number_of_bigint dropAmount_v
      in if num_gt originalPriceNumber (Finite 0)
         then num_mul (num_div dropAmountNumber originalPriceNumber) (Finite 100)
         else Finite 0)"

definition checkEligibility ::
  "Oracle \<Rightarrow> string \<Rightarrow> int \<Rightarrow> js_number \<Rightarrow> js_error + EligibilityResult" where
  "checkEligibility oracle pid originalPrice dropThresholdPercent =
     (case getOraclePrices oracle of
        Inl e \<Rightarrow> Inl e
      | Inr response \<Rightarrow>
     (case find_product (prices response) pid of
           None \<Rightarrow> Inl (product_not_found pid)
         | Some matchedProduct \<Rightarrow>
     (case getMerkleProof oracle (op_id matchedProduct) of
        Inl e \<Rightarrow> Inl e
      | Inr proof_v \<Rightarrow>
     (case BigInt_of_number (op_currentPrice matchedProduct) of
        Inl e \<Rightarrow> Inl e
      | Inr currentPrice_v \<Rightarrow>
     (let dropAmount_v = drop_amount originalPrice currentPrice_v;
          dropPercentage_v = drop_percentage originalPrice dropAmount_v;
          eligible_v = (dropAmount_v > 0 \<and> num_ge dropPercentage_v dropThresholdPercent)
      in Inr \<lparr>eligible = eligible_v,
              dropPercentage = num_div (Math_round (num_mul dropPercentage_v (Finite 100))) (Finite 100),
              dropAmount = bigint_toString dropAmount_v,
              currentPrice = bigint_toString currentPrice_v,
              merkleRoot = opr_merkleRoot response,
              er_proof = proof_v,
              payoutAmount = bigint_toString dropAmount_v\<rparr>)))))"

subsection \<open>The specification's percentage formula, and its scenario as a concrete oracle\<close>


definition scenario_proof :: OracleMerkleProof where
  "scenario_proof =
     \<lparr>mp_leaf = ''0x02'', mp_currentPrice = Finite 99990000, mp_proof = [(left, ''0x03'')],
      mp_siblings = [''0x03''], mp_pathIndices = [Finite 0], mp_root = ''0x01'',
      mp_productName = ''Widget'', mp_leafBigInt = ''2'', mp_productHash = ''0x04'',
      mp_productId = ''b0-7x a''\<rparr>"

definition scenario_oracle :: Oracle where
  "scenario_oracle =
     \<lparr>getOraclePrices = Inr
        \<lparr>prices = [\<lparr>op_id = ''b0-7x a'', op_name = ''Widget'', op_currentPrice = Finite 99990000,
                    op_basePrice = Finite 199990000, op_change = Finite 0\<rparr>],
         opr_merkleRoot = ''0x01'', opr_timestamp = Finite 0\<rparr>,
      getMerkleProof = (\<lambda>_. Inr scenario_proof)\<rparr>"

section \<open>Policy store (\<open>policyManager\<close>)\<close>

record PolicyPurchaseDetails =
  pd_orderHash :: string
  pd_invoicePrice :: string
  pd_invoiceDate :: js_number
  pd_productHash :: string
  pd_salt :: string
  pd_selectedTier :: js_number
  pd_productId :: string

record Contracts =
  vault :: string
  token :: string
  verifier :: string

datatype PolicyStatus = Active | Eligible | Ineligible | Claimed

record Eligibility =
  checkedAt :: js_number
  el_dropPercentage :: js_number
  el_dropAmount :: string
  el_currentPrice :: string
  el_merkleRoot :: "string option"
  el_proof :: "OracleMerkleProof option"
  el_payoutAmount :: "string option"

record PolicyData =
  policyId :: string
  transactionHash :: string
  blockNumber :: js_number
  policyPurchaseDate :: js_number
  purchaseDetails :: PolicyPurchaseDetails
  secretCommitment :: string
  premium :: string
  tier :: js_number
  contracts :: Contracts
  createdAt :: string
  network :: string
  status :: "PolicyStatus option"
  eligibility :: "Eligibility option"
  claimTxHash :: "string option"
  claimedAt :: "js_number option"

text \<open>
  \<open>Partial<PolicyData>\<close>: every top-level field may be absent (\<open>None\<close>). A present
  \<open>eligibility\<close> is a whole eligibility object, whose own optional fields may be absent.
\<close>

record PolicyUpdates =
  u_policyId :: "string option"
  u_transactionHash :: "string option"
  u_blockNumber :: "js_number option"
  u_policyPurchaseDate :: "js_number option"
  u_purchaseDetails :: "PolicyPurchaseDetails option"
  u_secretCommitment :: "string option"
  u_premium :: "string option"
  u_tier :: "js_number option"
  u_contracts :: "Contracts option"
  u_createdAt :: "string option"
  u_network :: "string option"
  u_status :: "PolicyStatus option"
  u_eligibility :: "Eligibility option"
  u_claimTxHash :: "string option"
  u_claimedAt :: "js_number option"

text \<open>
  \<open>localStorage\<close> holds, under each key, the JSON text of an array of policies; the model
  keeps the array itself. \<open>setItem\<close> throws when the storage refuses the write (quota), and
  outside a browser (\<open>typeof window === 'undefined'\<close>) there is no storage at all.
\<close>

record LocalStorage =
  items :: "string \<rightharpoonup> PolicyData list"
  writable :: bool

datatype Runtime = Server | Browser LocalStorage

definition setItem :: "LocalStorage \<Rightarrow> string \<Rightarrow> PolicyData list \<Rightarrow> js_error + LocalStorage" where
  "setItem ls k v =
     (if writable ls then Inr (ls\<lparr>items := (items ls)(k \<mapsto> v)\<rparr>) else Inl QuotaExceededError)"

definition policies_key :: "string \<Rightarrow> string" where
  "policies_key walletAddress = ''zkpp_policies_'' @ toLowerCase walletAddress"

definition getPoliciesForAddress :: "Runtime \<Rightarrow> string \<Rightarrow> PolicyData list" where
  "getPoliciesForAddress rt walletAddress =
     (case rt of
        Server \<Rightarrow> []
      | Browser ls \<Rightarrow>
          (case items ls (policies_key walletAddress) of None \<Rightarrow> [] | Some stored \<Rightarrow> stored))"

definition savePolicyForAddress :: "Runtime \<Rightarrow> string \<Rightarrow> PolicyData \<Rightarrow> Runtime" where
  "savePolicyForAddress rt walletAddress policyData =
     (case rt of
        Server \<Rightarrow> rt
      | Browser ls \<Rightarrow>
          (let k = policies_key walletAddress;
               existingPolicies = getPoliciesForAddress rt walletAddress;
               exists_v = list_ex (\<lambda>p. transactionHash p = transactionHash policyData) existingPolicies
           in if exists_v then rt
              else (case setItem ls k (existingPolicies @ [policyData]) of
                      Inl _ \<Rightarrow> rt
                    | Inr ls' \<Rightarrow> Browser ls')))"

fun findIndex :: "('a \<Rightarrow> bool) \<Rightarrow> 'a list \<Rightarrow> nat option" where
  "findIndex P [] = None"
| "findIndex P (x # xs) = (if P x then Some 0 else map_option Suc (findIndex P xs))"

definition updatePolicyForAddress ::
  "Runtime \<Rightarrow> string \<Rightarrow> string \<Rightarrow> (PolicyData \<Rightarrow> PolicyData) \<Rightarrow> PolicyData option \<times> Runtime" where
  "updatePolicyForAddress rt walletAddress pid updater =
     (case rt of
        Server \<Rightarrow> (None, rt)
      | Browser ls \<Rightarrow>
          (let k = policies_key walletAddress;
               existingPolicies = getPoliciesForAddress rt walletAddress
           in case findIndex (\<lambda>policy. policyId policy = pid) existingPolicies of
                None \<Rightarrow> (None, rt)
              | Some index \<Rightarrow>
                  (let updatedPolicy = updater (existingPolicies ! index)
                   in case setItem ls k (existingPolicies[index := updatedPolicy]) of
                        Inl _ \<Rightarrow> (None, rt)
                      | Inr ls' \<Rightarrow> (Some updatedPolicy, Browser ls'))))"

definition spread :: "'a \<Rightarrow> 'a option \<Rightarrow> 'a" where
  \<comment> \<open>a required field under \<open>{...policy, ...updates}\<close>\<close>
  "spread old upd = (case upd of None \<Rightarrow> old | Some v \<Rightarrow> v)"

definition spread_opt :: "'a option \<Rightarrow> 'a option \<Rightarrow> 'a option" where
  \<comment> \<open>an optional field under \<open>{...policy, ...updates}\<close>\<close>
  "spread_opt old upd = (case upd of None \<Rightarrow> old | Some v \<Rightarrow> Some v)"

definition merge_eligibility :: "Eligibility option \<Rightarrow> Eligibility \<Rightarrow> Eligibility" where
  \<comment> \<open>\<open>{ ...policy.eligibility, ...updates.eligibility }\<close>\<close>
  "merge_eligibility old upd =
     upd\<lparr>el_merkleRoot := spread_opt (Option.bind old el_merkleRoot) (el_merkleRoot upd),
         el_proof := spread_opt (Option.bind old el_proof) (el_proof upd),
         el_payoutAmount := spread_opt (Option.bind old el_payoutAmount) (el_payoutAmount upd)\<rparr>"

definition merge_policy :: "PolicyUpdates \<Rightarrow> PolicyData \<Rightarrow> PolicyData" where
  "merge_policy updates policy =
     \<lparr>policyId = spread (policyId policy) (u_policyId updates),
      transactionHash = spread (transactionHash policy) (u_transactionHash updates),
      blockNumber = spread (blockNumber policy) (u_blockNumber updates),
      policyPurchaseDate = spread (policyPurchaseDate policy) (u_policyPurchaseDate updates),
      purchaseDetails = spread (purchaseDetails policy) (u_purchaseDetails updates),
      secretCommitment = spread (secretCommitment policy) (u_secretCommitment updates),
      premium = spread (premium policy) (u_premium updates),
      tier = spread (tier policy) (u_tier updates),
      contracts = spread (contracts policy) (u_contracts updates),
      createdAt = spread (createdAt policy) (u_createdAt updates),
      network = spread (network policy) (u_network updates),
      status = spread_opt (status policy) (u_status updates),
      eligibility =
        (case u_eligibility updates of
           Some e \<Rightarrow> Some (merge_eligibility (eligibility policy) e)
         | None \<Rightarrow> eligibility policy),
      claimTxHash = spread_opt (claimTxHash policy) (u_claimTxHash updates),
      claimedAt = spread_opt (claimedAt policy) (u_claimedAt updates)\<rparr>"

definition mergePolicyForAddress ::
  "Runtime \<Rightarrow> string \<Rightarrow> string \<Rightarrow> PolicyUpdates \<Rightarrow> PolicyData option \<times> Runtime" where
  "mergePolicyForAddress rt walletAddress pid updates =
     updatePolicyForAddress rt walletAddress pid (merge_policy updates)"

subsection \<open>Concrete records and stores used by the witnesses\<close>

definition no_updates :: PolicyUpdates where
  "no_updates =
     \<lparr>u_policyId = None, u_transactionHash = None, u_blockNumber = None,
      u_policyPurchaseDate = None, u_purchaseDetails = None, u_secretCommitment = None,
      u_premium = None, u_tier = None, u_contracts = None, u_createdAt = None, u_network = None,
      u_status = None, u_eligibility = None, u_claimTxHash = None, u_claimedAt = None\<rparr>"

definition example_policy :: PolicyData where
  "example_policy =
     \<lparr>policyId = ''7'', transactionHash = ''0xaa'', blockNumber = Finite 12,
      policyPurchaseDate = Finite 1700000000,
      purchaseDetails =
        \<lparr>pd_orderHash = ''0x05'', pd_invoicePrice = ''199990000'', pd_invoiceDate = Finite 1690000000,
         pd_productHash = ''0x04'', pd_salt = ''0x09'', pd_selectedTier = Finite 2,
         pd_productId = ''B07XA''\<rparr>,
      secretCommitment = ''0x0b'', premium = ''3000000'', tier = Finite 2,
      contracts = \<lparr>vault = ''0xv'', token = ''0xt'', verifier = ''0xf''\<rparr>,
      createdAt = ''2023-11-14T22:13:20.000Z'', network = ''anvil-local'',
      status = Some Active, eligibility = None, claimTxHash = None, claimedAt = None\<rparr>"

definition empty_browser :: Runtime where
  "empty_browser = Browser \<lparr>items = Map.empty, writable = True\<rparr>"

definition claimed_store :: Runtime where
  "claimed_store = savePolicyForAddress empty_browser ''0xAB'' (example_policy\<lparr>status := Some Claimed\<rparr>)"

section \<open>Claim submission (\<open>handleSubmitClaim\<close>)\<close>

record ClaimEligibilityState =
  ce_dropPercentage :: js_number
  dropAmountMicros :: string
  currentPriceMicros :: string
  formattedDrop :: string
  formattedCurrent :: string
  ce_merkleRoot :: string
  ce_proof :: "OracleMerkleProof option"
  ce_payoutAmount :: string
  ce_checkedAt :: js_number

datatype ClaimStatus =
  CS_idle | CS_active | CS_checking | CS_eligible | CS_ineligible | CS_claiming | CS_claimed | CS_error

record ClaimState =
  cs_status :: ClaimStatus
  cs_eligibility :: "ClaimEligibilityState option"
  cs_error :: "js_error option"
  txHash :: "string option"

text \<open>
  \<open>Partial<ClaimState>\<close>. The handler passes \<open>error: undefined\<close> explicitly, which the
  spread writes over an earlier error: \<open>Some None\<close> here.
\<close>

record ClaimStatePartial =
  p_status :: "ClaimStatus option"
  p_eligibility :: "ClaimEligibilityState option"
  p_error :: "js_error option option"
  p_txHash :: "string option"

definition no_change :: ClaimStatePartial where
  "no_change = \<lparr>p_status = None, p_eligibility = None, p_error = None, p_txHash = None\<rparr>"

definition updateClaimState ::
  "(string \<rightharpoonup> ClaimState) \<Rightarrow> string \<Rightarrow> ClaimStatePartial \<Rightarrow> (string \<rightharpoonup> ClaimState)" where
  "updateClaimState prev pid partial =
     (let existing = prev pid;
          nextStatus =
            (case p_status partial of
               Some s \<Rightarrow> s
             | None \<Rightarrow> (case existing of Some st \<Rightarrow> cs_status st | None \<Rightarrow> CS_active))
      in prev(pid \<mapsto>
           \<lparr>cs_status = nextStatus,
            cs_eligibility = spread_opt (Option.bind existing cs_eligibility) (p_eligibility partial),
            cs_error = spread (Option.bind existing cs_error) (p_error partial),
            txHash = spread_opt (Option.bind existing txHash) (p_txHash partial)\<rparr>))"

record GeneratedClaimProof =
  proof_a :: "string \<times> string"
  proof_b :: "(string \<times> string) \<times> (string \<times> string)"
  proof_c :: "string \<times> string"
  publicSignals :: "string list"

record LedgerPolicy =
  buyer :: string
  lp_commitment :: string
  premiumPaid :: int
  lp_purchaseDate :: int
  alreadyClaimed :: bool

record ClaimPayoutArgs =
  a_policyId :: int
  a_commitment :: string
  a_merkleRoot :: string
  a_policyPurchaseDate :: int
  a_premiumPaid :: int
  a_proofA :: "string \<times> string"
  a_proofB :: "(string \<times> string) \<times> (string \<times> string)"
  a_proofC :: "string \<times> string"
  a_publicSignals :: "int list"

text \<open>
  The ledger contract as the handler sees it: each call either answers or throws.
  \<open>claimPayout\<close> answers with what \<open>tx.wait()\<close> then gives: a throw, no receipt, or the
  hash of the receipt.
\<close>

record Vault =
  priceMerkleRoot :: "js_error + string"
  policies :: "int \<Rightarrow> js_error + LedgerPolicy"
  claimPayout :: "ClaimPayoutArgs \<Rightarrow> js_error + (js_error + string option)"

datatype ledger_call =
  Call_priceMerkleRoot | Call_policies int | Call_claimPayout ClaimPayoutArgs

record Signer =
  getAddress :: "js_error + string"

record Wallet =
  address :: "string option"
  signer :: "Signer option"

text \<open>
  The remaining collaborators: the prover behind \<open>generateClaimProof\<close> (only whether it
  returns a proof or throws matters to the handler), the contract factory, \<open>ethers.zeroPadValue\<close>
  to 32 bytes, and the clock.
\<close>

record ClaimEnv =
  generateClaimProof :: "PolicyData \<Rightarrow> OracleMerkleProof \<Rightarrow> string \<Rightarrow> js_error + GeneratedClaimProof"
  getInsuranceVaultContractWithSigner :: "Signer \<Rightarrow> js_error + Vault"
  zeroPadValue32 :: "string \<Rightarrow> js_error + string"
  date_now :: js_number

fun map_result :: "('a \<Rightarrow> js_error + 'b) \<Rightarrow> 'a list \<Rightarrow> js_error + 'b list" where
  "map_result f [] = Inr []"
| "map_result f (x # xs) =
     (case f x of
        Inl e \<Rightarrow> Inl e
      | Inr y \<Rightarrow> (case map_result f xs of Inl e \<Rightarrow> Inl e | Inr ys \<Rightarrow> Inr (y # ys)))"

definition formatPublicSignals :: "string list \<Rightarrow> js_error + int list" where
  "formatPublicSignals signals = map_result BigInt_of_string signals"

definition is_policy_id :: "string \<Rightarrow> bool" where
  \<comment> \<open>\<open>/^[0-9]+$/.test(policyId)\<close>\<close>
  "is_policy_id s \<longleftrightarrow> s \<noteq> [] \<and> list_all (\<lambda>c. 48 \<le> (of_char c :: nat) \<and> (of_char c :: nat) \<le> 57) s"

definition stale_root_error :: js_error where
  "stale_root_error = Error ''Latest on-chain Merkle root does not match oracle root.''"

definition other_wallet_error :: js_error where
  "other_wallet_error = Error ''This policy belongs to another wallet.''"

definition already_claimed_error :: js_error where
  "already_claimed_error = Error ''Policy is already claimed on-chain.''"

definition no_receipt_error :: js_error where
  "no_receipt_error = Error ''Claim transaction did not return a receipt.''"

definition ledger_checks ::
  "Vault \<Rightarrow> Signer \<Rightarrow> string \<Rightarrow> PolicyData \<Rightarrow> (js_error + unit) \<times> ledger_call list" where
  \<comment> \<open>The two reads issued together (\<open>Promise.all\<close>) and the three checks on what they
      return: root, buyer, already claimed. The second component lists the ledger calls
      issued.\<close>
  "ledger_checks vault_v sg formattedRoot policy =
     (case BigInt_of_string (policyId policy) of
        Inl e \<Rightarrow> (Inl e, [Call_priceMerkleRoot])
      | Inr pidBig \<Rightarrow>
     (let reads = [Call_priceMerkleRoot, Call_policies pidBig]
      in case priceMerkleRoot vault_v of
           Inl e \<Rightarrow> (Inl e, reads)
         | Inr onChainRoot \<Rightarrow>
     (case policies vault_v pidBig of
           Inl e \<Rightarrow> (Inl e, reads)
         | Inr storedPolicy \<Rightarrow>
     (if toLowerCase onChainRoot \<noteq> toLowerCase formattedRoot then (Inl stale_root_error, reads)
      else (case getAddress sg of
           Inl e \<Rightarrow> (Inl e, reads)
         | Inr walletAddress \<Rightarrow>
     (if toLowerCase (buyer storedPolicy) \<noteq> toLowerCase walletAddress
      then (Inl other_wallet_error, reads)
      else if alreadyClaimed storedPolicy then (Inl already_claimed_error, reads)
      else (Inr (), reads)))))))"

definition claim_args ::
  "ClaimEnv \<Rightarrow> PolicyData \<Rightarrow> GeneratedClaimProof \<Rightarrow> string \<Rightarrow> js_error + ClaimPayoutArgs" where
  \<comment> \<open>the conversions made before \<open>vault.claimPayout\<close> is called, in their order\<close>
  "claim_args env policy proofResult formattedRoot =
     (case BigInt_of_string (policyId policy) of
        Inl e \<Rightarrow> Inl e
      | Inr policyIdBig \<Rightarrow>
     (case zeroPadValue32 env (secretCommitment policy) of
        Inl e \<Rightarrow> Inl e
      | Inr commitmentHex \<Rightarrow>
     (case BigInt_of_string (premium policy) of
        Inl e \<Rightarrow> Inl e
      | Inr premiumBig \<Rightarrow>
     (case formatPublicSignals (publicSignals proofResult) of
        Inl e \<Rightarrow> Inl e
      | Inr signals \<Rightarrow>
     (case BigInt_of_number (policyPurchaseDate policy) of
        Inl e \<Rightarrow> Inl e
      | Inr purchaseDateBig \<Rightarrow>
          Inr \<lparr>a_policyId = policyIdBig, a_commitment = commitmentHex,
               a_merkleRoot = formattedRoot, a_policyPurchaseDate = purchaseDateBig,
               a_premiumPaid = premiumBig, a_proofA = proof_a proofResult,
               a_proofB = proof_b proofResult, a_proofC = proof_c proofResult,
               a_publicSignals = signals\<rparr>)))))"

definition send_claim :: "Vault \<Rightarrow> ClaimPayoutArgs \<Rightarrow> js_error + string" where
  \<comment> \<open>\<open>vault.claimPayout(...)\<close>, then \<open>tx.wait()\<close>, then the receipt check\<close>
  "send_claim vault_v args =
     (case claimPayout vault_v args of
        Inl e \<Rightarrow> Inl e
      | Inr waited \<Rightarrow>
          (case waited of
             Inl e \<Rightarrow> Inl e
           | Inr None \<Rightarrow> Inl no_receipt_error
           | Inr (Some receiptHash) \<Rightarrow> Inr receiptHash))"

definition submit_steps ::
  "ClaimEnv \<Rightarrow> Signer \<Rightarrow> ClaimEligibilityState \<Rightarrow> OracleMerkleProof \<Rightarrow> PolicyData
     \<Rightarrow> (js_error + string) \<times> ledger_call list" where
  \<comment> \<open>The body of the \<open>try\<close> block up to the receipt: its result (the thrown error or the
      receipt hash) and the ledger calls it issued, in order.\<close>
  "submit_steps env sg el oracleProof policy =
     (let formattedRoot = formatMerkleRoot (ce_merkleRoot el)
      in case generateClaimProof env policy oracleProof (ce_merkleRoot el) of
           Inl e \<Rightarrow> (Inl e, [])
         | Inr proofResult \<Rightarrow>
     (case getInsuranceVaultContractWithSigner env sg of
           Inl e \<Rightarrow> (Inl e, [])
         | Inr vault_v \<Rightarrow>
     (case ledger_checks vault_v sg formattedRoot policy of
           (Inl e, reads) \<Rightarrow> (Inl e, reads)
         | (Inr _, reads) \<Rightarrow>
     (case claim_args env policy proofResult formattedRoot of
           Inl e \<Rightarrow> (Inl e, reads)
         | Inr args \<Rightarrow> (send_claim vault_v args, reads @ [Call_claimPayout args])))))"

datatype SubmitOutcome = Alerted string | Failed js_error | Submitted string

record SubmitResult =
  outcome :: SubmitOutcome
  ledger_calls :: "ledger_call list"
  claimStates_after :: "string \<rightharpoonup> ClaimState"
  runtime_after :: Runtime

definition claimed_updates ::
  "ClaimEnv \<Rightarrow> PolicyData \<Rightarrow> ClaimEligibilityState \<Rightarrow> OracleMerkleProof \<Rightarrow> string \<Rightarrow> PolicyUpdates" where
  \<comment> \<open>the partial record merged into the store after a successful claim\<close>
  "claimed_updates env policy el oracleProof receiptHash =
     \<lparr>u_policyId = None, u_transactionHash = None, u_blockNumber = None,
      u_policyPurchaseDate = None, u_purchaseDetails = None, u_secretCommitment = None,
      u_premium = None, u_tier = None, u_contracts = None, u_createdAt = None, u_network = None,
      u_status = Some Claimed,
      u_eligibility = Some
        (merge_eligibility (eligibility policy)
           \<lparr>checkedAt = date_now env,
            el_dropPercentage = ce_dropPercentage el,
            el_dropAmount = dropAmountMicros el,
            el_currentPrice = currentPriceMicros el,
            el_merkleRoot = Some (ce_merkleRoot el),
            el_proof = Some oracleProof,
            el_payoutAmount = Some (ce_payoutAmount el)\<rparr>),
      u_claimTxHash = Some receiptHash,
      u_claimedAt = Some (Math_floor (num_div (date_now env) (Finite 1000)))\<rparr>"

definition handleSubmitClaim ::
  "ClaimEnv \<Rightarrow> Wallet \<Rightarrow> (string \<rightharpoonup> ClaimState) \<Rightarrow> Runtime \<Rightarrow> PolicyData \<Rightarrow> SubmitResult" where
  "handleSubmitClaim env wallet claimStates rt policy =
     (let pid = policyId policy;
          untouched = (\<lambda>msg. \<lparr>outcome = Alerted msg, ledger_calls = [],
                              claimStates_after = claimStates, runtime_after = rt\<rparr>)
      in if address wallet = None \<or> address wallet = Some [] \<or> signer wallet = None
         then untouched ''Please connect your wallet to submit a claim.''
         else (case Option.bind (Option.bind (claimStates pid) cs_eligibility) ce_proof of
                 None \<Rightarrow> untouched ''Please check claim eligibility before submitting.''
               | Some oracleProof \<Rightarrow>
         if \<not> is_policy_id pid then untouched ''Policy ID is invalid.''
         else
           (let addr = the (address wallet);
                sg = the (signer wallet);
                el = the (Option.bind (claimStates pid) cs_eligibility);
                claiming = updateClaimState claimStates pid
                             (no_change\<lparr>p_status := Some CS_claiming, p_error := Some None\<rparr>);
                steps = submit_steps env sg el oracleProof policy
            in case fst steps of
                 Inl e \<Rightarrow>
                   \<lparr>outcome = Failed e, ledger_calls = snd steps,
                    claimStates_after = updateClaimState claiming pid
                       (no_change\<lparr>p_status := Some CS_error, p_error := Some (Some e)\<rparr>),
                    runtime_after = rt\<rparr>
               | Inr receiptHash \<Rightarrow>
                   \<lparr>outcome = Submitted receiptHash, ledger_calls = snd steps,
                    claimStates_after = updateClaimState claiming pid
                       (no_change\<lparr>p_status := Some CS_claimed, p_txHash := Some receiptHash\<rparr>),
                    runtime_after = snd (mergePolicyForAddress rt addr pid
                       (claimed_updates env policy el oracleProof receiptHash))\<rparr>)))"

subsection \<open>A concrete wallet, ledger and claim state used by the witnesses\<close>

definition example_vault :: "bool \<Rightarrow> string \<Rightarrow> Vault" where
  "example_vault claimedFlag onChainRoot =
     \<lparr>priceMerkleRoot = Inr onChainRoot,
      policies = (\<lambda>n. Inr \<lparr>buyer = ''0xAB'', lp_commitment = ''0x0b'', premiumPaid = 3000000,
                            lp_purchaseDate = 1700000000, alreadyClaimed = claimedFlag\<rparr>),
      claimPayout = (\<lambda>_. Inr (Inr (Some ''0xdd'')))\<rparr>"

definition example_signer :: Signer where
  "example_signer = \<lparr>getAddress = Inr ''0xab''\<rparr>"

definition example_wallet :: Wallet where
  "example_wallet = \<lparr>address = Some ''0xab'', signer = Some example_signer\<rparr>"

definition example_env :: "Vault \<Rightarrow> ClaimEnv" where
  "example_env v =
     \<lparr>generateClaimProof = (\<lambda>_ _ _. Inr
        \<lparr>proof_a = (''1'', ''2''), proof_b = ((''3'', ''4''), (''5'', ''6'')), proof_c = (''7'', ''8''),
         publicSignals = [''1'', ''2'']\<rparr>),
      getInsuranceVaultContractWithSigner = (\<lambda>_. Inr v),
      zeroPadValue32 = (\<lambda>s. Inr s),
      date_now = Finite 1700000100000\<rparr>"

definition example_snapshot :: ClaimEligibilityState where
  "example_snapshot =
     \<lparr>ce_dropPercentage = Finite 50, dropAmountMicros = ''100000000'',
      currentPriceMicros = ''99990000'', formattedDrop = ''$100.00'', formattedCurrent = ''$99.99'',
      ce_merkleRoot = ''0x01'', ce_proof = Some scenario_proof, ce_payoutAmount = ''100000000'',
      ce_checkedAt = Finite 1700000000000\<rparr>"

definition example_claimStates :: "string \<rightharpoonup> ClaimState" where
  "example_claimStates =
     [''7'' \<mapsto> \<lparr>cs_status = CS_eligible, cs_eligibility = Some example_snapshot,
                 cs_error = None, txHash = None\<rparr>]"

section \<open>Properties of the string helpers\<close>

lemma trim_hd: "trim s \<noteq> [] \<Longrightarrow> \<not> is_whitespace (hd (trim s))"
  by (metis dropWhile.simps(1) dropWhile_eq_Nil_conv dropWhile_last
    hd_dropWhile last_rev rev.simps(1) rev_rev_ident trim_def)

lemma trim_last: "trim s \<noteq> [] \<Longrightarrow> \<not> is_whitespace (last (trim s))"
  by (metis fold_Cons_rev hd_dropWhile hd_rev rev_conv_fold
    rev_eq_append_conv rev_rev_ident trim_def)

lemma trim_fixed:
  "s = [] \<or> (\<not> is_whitespace (hd s) \<and> \<not> is_whitespace (last s)) \<Longrightarrow> trim s = s"
proof (cases "s = []")
  case True
  then show ?thesis by (simp add: trim_def)
next
  case False
  assume "s = [] \<or> (\<not> is_whitespace (hd s) \<and> \<not> is_whitespace (last s))"
  with False have h: "\<not> is_whitespace (hd s)" and l: "\<not> is_whitespace (last s)" by auto
  from h False have 1: "dropWhile is_whitespace s = s"
    by (simp add: dropWhile_eq_self_iff)
  from l False have 2: "dropWhile is_whitespace (rev s) = rev s"
    by (simp add: dropWhile_eq_self_iff hd_rev)
  show ?thesis by (simp add: trim_def 1 2)
qed

lemma trim_idem: "trim (trim s) = trim s"
  using trim_hd [of s] trim_last [of s] by (intro trim_fixed) blast

lemma BigInt_of_trim: "StringToBigInt (trim s) = StringToBigInt s"
  by (simp add: StringToBigInt_def trim_idem)

section \<open>Properties of hexadecimal text\<close>

lemma digit_value_digit_char: "d < 16 \<Longrightarrow> digit_value (digit_char d) = Some d"
proof -
  assume "d < 16"
  then have "d = 0 \<or> d = 1 \<or> d = 2 \<or> d = 3 \<or> d = 4 \<or> d = 5 \<or> d = 6 \<or> d = 7 \<or> d = 8
      \<or> d = 9 \<or> d = 10 \<or> d = 11 \<or> d = 12 \<or> d = 13 \<or> d = 14 \<or> d = 15" by arith
  then show ?thesis
    by (elim disjE) (simp_all add: digit_char_def digit_value_def)
qed

lemma is_digit_digit_char: "d < 16 \<Longrightarrow> is_digit 16 (digit_char d)"
  by (simp add: is_digit_def digit_value_digit_char)

lemma digits_value_snoc:
  "digits_value r (xs @ [c]) = digits_value r xs * r + the (digit_value c)"
  by (simp add: digits_value_def)

lemma digits16_value: "digits_value 16 (digits16 n) = n"
proof (induction n rule: digits16.induct)
  case (1 n)
  show ?case
  proof (cases "n < 16")
    case True
    then show ?thesis
      by (subst digits16.simps) (simp add: digits_value_def digit_value_digit_char)
  next
    case False
    with 1 have "digits_value 16 (digits16 (n div 16)) = n div 16" by simp
    with False show ?thesis
      by (subst digits16.simps) (simp add: digits_value_snoc digit_value_digit_char)
  qed
qed

lemma digits16_hex: "list_all (is_digit 16) (digits16 n)"
proof (induction n rule: digits16.induct)
  case (1 n)
  show ?case
  proof (cases "n < 16")
    case True
    then show ?thesis by (subst digits16.simps) (simp add: is_digit_digit_char)
  next
    case False
    with 1 have "list_all (is_digit 16) (digits16 (n div 16))" by simp
    with False show ?thesis by (subst digits16.simps) (simp add: is_digit_digit_char)
  qed
qed

lemma digits16_nonempty: "digits16 n \<noteq> []"
  by (subst digits16.simps) simp

lemma digits16_length: "0 < k \<Longrightarrow> n < 16 ^ k \<Longrightarrow> length (digits16 n) \<le> k"
proof (induction n arbitrary: k rule: digits16.induct)
  case (1 n)
  show ?case
  proof (cases "n < 16")
    case True
    with 1(2) show ?thesis by (subst digits16.simps) simp
  next
    case False
    from 1(2) obtain k' where k: "k = Suc k'" by (cases k) auto
    from False 1(3) k have "0 < k'" by (cases k') auto
    moreover from 1(3) k have "n div 16 < 16 ^ k'"
      by (simp add: less_mult_imp_div_less mult.commute)
    ultimately have "length (digits16 (n div 16)) \<le> k'" using 1(1) False by simp
    with False k show ?thesis by (subst digits16.simps) simp
  qed
qed

lemma digits_value_zeros:
  "digits_value r (replicate m (CHR ''0'') @ s) = digits_value r s"
proof -
  have "foldl (\<lambda>acc c. acc * r + the (digit_value c)) 0 (replicate m (CHR ''0'')) = 0"
    by (induction m) (simp_all add: digit_value_def)
  then show ?thesis by (simp add: digits_value_def)
qed

lemma is_digit_zero: "is_digit 16 (CHR ''0'')"
  by (simp add: is_digit_def digit_value_def)

lemma hex_digit_not_whitespace: "is_digit r c \<Longrightarrow> \<not> is_whitespace c"
  by (auto simp: is_digit_def digit_value_def is_whitespace_def Let_def split: if_splits option.splits)

lemma padStart_hex:
  "list_all (is_digit 16) s \<Longrightarrow> list_all (is_digit 16) (padStart n (CHR ''0'') s)"
  by (auto simp: padStart_def list_all_iff is_digit_zero)

lemma padStart_value: "digits_value r (padStart n (CHR ''0'') s) = digits_value r s"
  by (simp add: padStart_def digits_value_zeros)

lemma padStart_length: "length (padStart n c s) = max n (length s)"
  by (simp add: padStart_def)

lemma parse_0x:
  assumes "body \<noteq> []" "list_all (is_digit 16) body"
  shows "StringToBigInt (''0x'' @ body) = Some (int (digits_value 16 body))"
proof -
  have "last (''0x'' @ body) \<in> set body" using assms(1) by simp
  with assms(2) have "is_digit 16 (last (''0x'' @ body))" by (simp add: list_all_iff)
  then have l: "\<not> is_whitespace (last (''0x'' @ body))" by (rule hex_digit_not_whitespace)
  have h: "\<not> is_whitespace (hd (''0x'' @ body))" by (simp add: is_whitespace_def)
  have t: "trim (''0x'' @ body) = ''0x'' @ body" using h l by (intro trim_fixed) blast
  have "StringToBigInt (''0x'' @ body) = parse_digits 16 (drop 2 (''0x'' @ body))"
    unfolding StringToBigInt_def t by (simp add: startsWith_def)
  then show ?thesis
    using assms by (simp add: parse_digits_def)
qed

lemma StringToBigInt_hex64:
  assumes "0 \<le> v"
  shows "StringToBigInt (hex64 v) = Some v"
proof -
  let ?body = "padStart 64 (CHR ''0'') (digits16 (nat v))"
  have ne: "?body \<noteq> []" by (simp add: padStart_def digits16_nonempty)
  have hex: "list_all (is_digit 16) ?body" by (intro padStart_hex digits16_hex)
  have "StringToBigInt (''0x'' @ ?body) = Some (int (digits_value 16 ?body))"
    using ne hex by (rule parse_0x)
  then show ?thesis
    using assms by (simp add: hex64_def bigint_toString16_def padStart_value digits16_value)
qed

lemma hex64_length:
  assumes "0 \<le> v" "v < 2 ^ 256"
  shows "length (hex64 v) = 66"
proof -
  have "nat v < 2 ^ 256" using assms by (simp add: nat_less_iff)
  also have "(2::nat) ^ 256 = 16 ^ 64" by simp
  finally have "length (digits16 (nat v)) \<le> 64" by (intro digits16_length) simp_all
  then show ?thesis
    using assms by (simp add: hex64_def bigint_toString16_def padStart_length)
qed

lemma hex64_digits:
  assumes "0 \<le> v"
  shows "take 2 (hex64 v) = ''0x''" and "list_all (is_digit 16) (drop 2 (hex64 v))"
  using assms by (simp_all add: hex64_def bigint_toString16_def padStart_hex digits16_hex)

lemma of_char_lower:
  "(of_char (lower_char c) :: nat) =
     (if (65 \<le> (of_char c :: nat) \<and> (of_char c :: nat) \<le> 90)
         \<or> (192 \<le> (of_char c :: nat) \<and> (of_char c :: nat) \<le> 222 \<and> (of_char c :: nat) \<noteq> 215)
      then of_char c + 32 else of_char c)"
  by (simp add: lower_char_def Let_def)

lemma char_eq_of_char: "c = d \<longleftrightarrow> (of_char c :: nat) = of_char d"
  by (simp add: of_char_eq_iff)

lemma lower_whitespace: "is_whitespace (lower_char c) = is_whitespace c"
  unfolding is_whitespace_def of_char_lower by auto

lemma lower_digit_value: "digit_value (lower_char c) = digit_value c"
  unfolding digit_value_def Let_def of_char_lower by auto

lemma lower_is_digit: "is_digit r (lower_char c) = is_digit r c"
  by (simp add: is_digit_def lower_digit_value)

lemma lower_eq_zero: "lower_char c = CHR ''0'' \<longleftrightarrow> c = CHR ''0''"
  unfolding char_eq_of_char [of _ "CHR ''0''"] of_char_lower by auto

lemma lower_eq_x: "lower_char c = CHR ''x'' \<longleftrightarrow> c = CHR ''x'' \<or> c = CHR ''X''"
  unfolding char_eq_of_char [of _ "CHR ''x''"] char_eq_of_char [of _ "CHR ''X''"] of_char_lower by auto

lemma lower_eq_o: "lower_char c = CHR ''o'' \<longleftrightarrow> c = CHR ''o'' \<or> c = CHR ''O''"
  unfolding char_eq_of_char [of _ "CHR ''o''"] char_eq_of_char [of _ "CHR ''O''"] of_char_lower by auto

lemma lower_eq_b: "lower_char c = CHR ''b'' \<longleftrightarrow> c = CHR ''b'' \<or> c = CHR ''B''"
  unfolding char_eq_of_char [of _ "CHR ''b''"] char_eq_of_char [of _ "CHR ''B''"] of_char_lower by auto

lemma lower_not_upper:
  "lower_char c \<noteq> CHR ''X''" "lower_char c \<noteq> CHR ''O''" "lower_char c \<noteq> CHR ''B''"
  unfolding char_eq_of_char [of _ "CHR ''X''"] char_eq_of_char [of _ "CHR ''O''"]
    char_eq_of_char [of _ "CHR ''B''"] of_char_lower by auto

lemma lower_eq_sign:
  "lower_char c = CHR ''-'' \<longleftrightarrow> c = CHR ''-''" "lower_char c = CHR ''+'' \<longleftrightarrow> c = CHR ''+''"
  unfolding char_eq_of_char [of _ "CHR ''-''"] char_eq_of_char [of _ "CHR ''+''"] of_char_lower by auto

lemma dropWhile_lower:
  "dropWhile is_whitespace (map lower_char s) = map lower_char (dropWhile is_whitespace s)"
  by (induction s) (simp_all add: lower_whitespace)

lemma trim_lower: "trim (toLowerCase s) = toLowerCase (trim s)"
proof -
  have "trim (map lower_char s)
      = rev (dropWhile is_whitespace (map lower_char (rev (dropWhile is_whitespace s))))"
    by (simp only: trim_def dropWhile_lower rev_map)
  also have "\<dots> = map lower_char (trim s)"
    by (simp only: trim_def dropWhile_lower rev_map)
  finally show ?thesis by (simp only: toLowerCase_def)
qed

lemma digits_value_lower: "digits_value r (map lower_char s) = digits_value r s"
proof -
  have "foldl (\<lambda>acc c. acc * r + the (digit_value c)) a (map lower_char s)
      = foldl (\<lambda>acc c. acc * r + the (digit_value c)) a s" for a
    by (induction s arbitrary: a) (simp_all add: lower_digit_value)
  then show ?thesis by (simp add: digits_value_def)
qed

lemma parse_digits_lower: "parse_digits r (map lower_char s) = parse_digits r s"
  by (simp add: parse_digits_def digits_value_lower list_all_iff lower_is_digit)

lemma prefix_lower:
  "startsWith (map lower_char t) ''0x'' \<longleftrightarrow> startsWith t ''0x'' \<or> startsWith t ''0X''"
  "startsWith (map lower_char t) ''0o'' \<longleftrightarrow> startsWith t ''0o'' \<or> startsWith t ''0O''"
  "startsWith (map lower_char t) ''0b'' \<longleftrightarrow> startsWith t ''0b'' \<or> startsWith t ''0B''"
  "\<not> startsWith (map lower_char t) ''0X''"
  "\<not> startsWith (map lower_char t) ''0O''"
  "\<not> startsWith (map lower_char t) ''0B''"
proof -
  consider "t = []" | a where "t = [a]" | a b rest where "t = a # b # rest"
    by (cases t; cases "tl t") auto
  then have "(startsWith (map lower_char t) ''0x'' \<longleftrightarrow> startsWith t ''0x'' \<or> startsWith t ''0X'')
    \<and> (startsWith (map lower_char t) ''0o'' \<longleftrightarrow> startsWith t ''0o'' \<or> startsWith t ''0O'')
    \<and> (startsWith (map lower_char t) ''0b'' \<longleftrightarrow> startsWith t ''0b'' \<or> startsWith t ''0B'')
    \<and> \<not> startsWith (map lower_char t) ''0X''
    \<and> \<not> startsWith (map lower_char t) ''0O''
    \<and> \<not> startsWith (map lower_char t) ''0B''"
    by cases
      (auto simp: startsWith_def lower_eq_zero lower_eq_x lower_eq_o lower_eq_b lower_not_upper)
  then show
    "startsWith (map lower_char t) ''0x'' \<longleftrightarrow> startsWith t ''0x'' \<or> startsWith t ''0X''"
    "startsWith (map lower_char t) ''0o'' \<longleftrightarrow> startsWith t ''0o'' \<or> startsWith t ''0O''"
    "startsWith (map lower_char t) ''0b'' \<longleftrightarrow> startsWith t ''0b'' \<or> startsWith t ''0B''"
    "\<not> startsWith (map lower_char t) ''0X''"
    "\<not> startsWith (map lower_char t) ''0O''"
    "\<not> startsWith (map lower_char t) ''0B''"
    by blast+
qed

lemma StringToBigInt_lower: "StringToBigInt (toLowerCase s) = StringToBigInt s"
proof -
  let ?t = "trim s"
  have t: "trim (toLowerCase s) = map lower_char ?t" by (simp only: trim_lower) (simp only: toLowerCase_def)
  show ?thesis
  proof (cases "?t = []")
    case True
    then show ?thesis by (simp add: StringToBigInt_def t)
  next
    case False
    then have hd: "hd (map lower_char ?t) = lower_char (hd ?t)" by (simp add: hd_map)
    have tl: "tl (map lower_char ?t) = map lower_char (tl ?t)" by (simp add: map_tl)
    have dr: "drop 2 (map lower_char ?t) = map lower_char (drop 2 ?t)" by (simp add: drop_map)
    show ?thesis
      unfolding StringToBigInt_def t Let_def
      by (simp only: prefix_lower hd tl dr parse_digits_lower lower_eq_sign map_is_Nil_conv simp_thms)
  qed
qed

lemma same_text_same_value:
  assumes "toLowerCase l = toLowerCase (hex64 b)" "0 \<le> b"
  shows "StringToBigInt l = Some b"
proof -
  have "StringToBigInt l = StringToBigInt (toLowerCase l)" by (simp add: StringToBigInt_lower)
  also have "\<dots> = StringToBigInt (hex64 b)" by (simp add: assms(1) StringToBigInt_lower)
  also have "\<dots> = Some b" using assms(2) by (rule StringToBigInt_hex64)
  finally show ?thesis .
qed

lemma formatMerkleRoot_parsed:
  "StringToBigInt s = Some b \<Longrightarrow> formatMerkleRoot s = hex64 b"
  by (simp add: formatMerkleRoot_def toHex32_def BigInt_of_string_def)

lemma different_values_different_text:
  assumes "StringToBigInt s = Some b" "0 \<le> b" "StringToBigInt l \<noteq> Some b"
  shows "toLowerCase l \<noteq> toLowerCase (formatMerkleRoot s)"
  using assms same_text_same_value [of l b] by (auto simp: formatMerkleRoot_parsed)

section \<open>Properties of the number model\<close>

lemma powi_pos: "(0::rat) < 2 powi k"
  by (simp add: zero_less_power_int)

lemma powi_add: "(2::rat) powi (a + b) = 2 powi a * 2 powi b"
  by (simp add: power_int_add)

lemma powi_diff: "(2::rat) powi (a - b) = 2 powi a / 2 powi b"
  by (simp add: power_int_diff)

lemma powi_mono: "a \<le> b \<Longrightarrow> (2::rat) powi a \<le> 2 powi b"
  by (simp add: power_int_increasing)

lemma powi_strict_mono: "a < b \<Longrightarrow> (2::rat) powi a < 2 powi b"
  by (simp add: power_int_strict_increasing)

lemma bitlen_rat_bounds:
  assumes "n > 0"
  shows "(2::rat) powi (bitlen n - 1) \<le> of_int n" and "of_int n < (2::rat) powi (bitlen n)"
proof -
  from assms have b1: "bitlen n \<ge> 1" by (auto simp: bitlen_alt_def)
  from bitlen_bounds [OF assms]
  have lo: "2 ^ nat (bitlen n - 1) \<le> n" and hi: "n < 2 ^ nat (bitlen n)" by auto
  from lo have "(of_int (2 ^ nat (bitlen n - 1)) :: rat) \<le> of_int n"
    by (simp only: of_int_le_iff)
  with b1 show "(2::rat) powi (bitlen n - 1) \<le> of_int n"
    by (simp add: power_int_def)
  from hi have "(of_int n :: rat) < of_int (2 ^ nat (bitlen n))"
    by (simp only: of_int_less_iff)
  with b1 show "of_int n < (2::rat) powi (bitlen n)"
    by (simp add: power_int_def)
qed

lemma binary_exponent_bounds:
  assumes "x \<noteq> 0"
  shows "2 powi (binary_exponent x) \<le> \<bar>x\<bar>" and "\<bar>x\<bar> < 2 powi (binary_exponent x + 1)"
proof -
  obtain n d where q: "quotient_of \<bar>x\<bar> = (n, d)" by (cases "quotient_of \<bar>x\<bar>")
  have d: "d > 0" using quotient_of_denom_pos [OF q] .
  have a: "\<bar>x\<bar> = of_int n / of_int d" using quotient_of_div [OF q] .
  from assms have "\<bar>x\<bar> > 0" by simp
  with a d have n: "n > 0" by (simp add: zero_less_divide_iff)
  define e0 where "e0 = bitlen n - bitlen d"
  have dq: "(of_int d :: rat) > 0" using d by simp
  have lower: "2 powi (e0 - 1) \<le> \<bar>x\<bar>"
  proof -
    have "2 powi (e0 - 1) = (2::rat) powi (bitlen n - 1) / 2 powi (bitlen d)"
      by (simp add: e0_def powi_diff [symmetric] algebra_simps)
    also have "\<dots> \<le> of_int n / 2 powi (bitlen d)"
      using bitlen_rat_bounds(1) [OF n] powi_pos [of "bitlen d"] by (simp add: divide_right_mono)
    also have "\<dots> \<le> of_int n / of_int d"
      using bitlen_rat_bounds(2) [OF d] n dq by (simp add: frac_le)
    finally show ?thesis by (simp add: a)
  qed
  have upper: "\<bar>x\<bar> < 2 powi (e0 + 1)"
  proof -
    have d_lo: "(2::rat) powi (bitlen d - 1) \<le> of_int d" using bitlen_rat_bounds(1) [OF d] .
    have "\<bar>x\<bar> = of_int n / of_int d" by (rule a)
    also have "\<dots> < 2 powi (bitlen n) / of_int d"
      using bitlen_rat_bounds(2) [OF n] dq by (simp add: divide_strict_right_mono)
    also have "\<dots> \<le> 2 powi (bitlen n) / 2 powi (bitlen d - 1)"
      using d_lo powi_pos [of "bitlen d - 1"] powi_pos [of "bitlen n"]
      by (simp add: frac_le)
    also have "\<dots> = 2 powi (e0 + 1)"
      by (simp add: e0_def powi_diff [symmetric] algebra_simps)
    finally show ?thesis .
  qed
  have be: "binary_exponent x = (if 2 powi e0 \<le> \<bar>x\<bar> then e0 else e0 - 1)"
    by (simp add: binary_exponent_def q e0_def Let_def)
  show "2 powi (binary_exponent x) \<le> \<bar>x\<bar>"
    using lower by (simp add: be)
  show "\<bar>x\<bar> < 2 powi (binary_exponent x + 1)"
    using upper by (auto simp add: be)
qed

lemma binary_exponent_eqI:
  assumes lo: "2 powi e \<le> \<bar>x\<bar>" and hi: "\<bar>x\<bar> < 2 powi (e + 1)"
  shows "binary_exponent x = e"
proof -
  from lo powi_pos [of e] have "0 < \<bar>x\<bar>" by linarith
  then have nz: "x \<noteq> 0" by simp
  let ?b = "binary_exponent x"
  note b = binary_exponent_bounds [OF nz]
  have "\<not> ?b < e"
  proof
    assume "?b < e"
    then have "2 powi (?b + 1) \<le> (2::rat) powi e" by (intro powi_mono) simp
    with b(2) lo show False by simp
  qed
  moreover have "\<not> e < ?b"
  proof
    assume "e < ?b"
    then have "2 powi (e + 1) \<le> (2::rat) powi ?b" by (intro powi_mono) simp
    with b(1) hi show False by simp
  qed
  ultimately show ?thesis by simp
qed

lemma round_half_even_int: "round_half_even (of_int k) = k"
  by (simp add: round_half_even_def)

lemma round_half_even_ge_floor: "\<lfloor>m\<rfloor> \<le> round_half_even m"
  by (simp add: round_half_even_def Let_def)

text \<open>An integer of magnitude below \<open>2^53\<close> is a double: converting it is exact.\<close>

lemma round_double_exact:
  assumes e: "2 powi e \<le> \<bar>x\<bar>" "\<bar>x\<bar> < 2 powi (e + 1)" and r: "- 1022 \<le> e" "e < 1024"
    and m: "\<bar>x\<bar> / 2 powi (e - 52) = of_int k"
  shows "round_double x = Finite x"
proof -
  from e(1) powi_pos [of e] have "0 < \<bar>x\<bar>" by linarith
  then have nz: "x \<noteq> 0" by simp
  have be: "binary_exponent x = e" using e by (rule binary_exponent_eqI)
  have mx: "max e (- 1022) = e" using r by simp
  have q: "of_int k * 2 powi (e - 52) = \<bar>x\<bar>"
    using m powi_pos [of "e - 52"] by (simp add: field_simps)
  have "\<bar>x\<bar> < 2 powi 1024"
    using e(2) powi_mono [of "e + 1" 1024] r by simp
  then show ?thesis
    using nz by (simp add: round_double_def be mx Let_def m round_half_even_int q del: power_int_numeral)
       (simp add: sgn_if)
qed


lemma round_half_even_eqI:
  assumes "of_int k - 1 / 2 < m" "m < of_int k + 1 / 2"
  shows "round_half_even m = k"
proof -
  have "\<lfloor>m\<rfloor> = k \<or> \<lfloor>m\<rfloor> = k - 1" using assms by linarith
  then show ?thesis
  proof
    assume f: "\<lfloor>m\<rfloor> = k"
    then have "m - of_int k < 1 / 2" using assms by simp
    with f show ?thesis by (simp add: round_half_even_def Let_def)
  next
    assume f: "\<lfloor>m\<rfloor> = k - 1"
    then have "m - of_int (k - 1) > 1 / 2" using assms by simp
    with f show ?thesis by (simp add: round_half_even_def Let_def)
  qed
qed

lemma round_double_eqI:
  assumes e: "2 powi e \<le> \<bar>x\<bar>" "\<bar>x\<bar> < 2 powi (e + 1)" and r: "- 1022 \<le> e"
    and k: "of_int k - 1 / 2 < \<bar>x\<bar> / 2 powi (e - 52)" "\<bar>x\<bar> / 2 powi (e - 52) < of_int k + 1 / 2"
    and y: "y = sgn x * (of_int k * 2 powi (e - 52))" and fin: "\<bar>y\<bar> < 2 powi 1024"
  shows "round_double x = Finite y"
proof -
  from e(1) powi_pos [of e] have "0 < \<bar>x\<bar>" by linarith
  then have nz: "x \<noteq> 0" by simp
  have be: "binary_exponent x = e" using e by (rule binary_exponent_eqI)
  have mx: "max e (- 1022) = e" using r by simp
  have rk: "round_half_even (\<bar>x\<bar> / 2 powi (e - 52)) = k" using k by (rule round_half_even_eqI)
  have "0 \<le> \<bar>x\<bar> / 2 powi (e - 52)" using powi_pos [of "e - 52"] by simp
  with k(2) have "- 1 / 2 < (of_int k :: rat)" by linarith
  then have k0: "0 \<le> k" by linarith
  have "\<bar>y\<bar> = \<bar>sgn x\<bar> * (\<bar>of_int k\<bar> * \<bar>2 powi (e - 52)\<bar>)"
    by (simp add: y abs_mult)
  also have "\<dots> = of_int k * 2 powi (e - 52)"
    using nz k0 powi_pos [of "e - 52"] by (simp add: abs_sgn_eq)
  finally have "\<bar>y\<bar> = of_int k * 2 powi (e - 52)" .
  with fin have "\<not> 2 powi 1024 \<le> (of_int k :: rat) * 2 powi (e - 52)" by simp
  then show ?thesis
    using nz by (simp add: round_double_def be mx Let_def rk y del: power_int_numeral)
qed

lemma round_half_even_nonneg: "0 \<le> m \<Longrightarrow> 0 \<le> round_half_even m"
  using round_half_even_ge_floor [of m] by (simp add: order_trans [of 0 "\<lfloor>m\<rfloor>"])

lemma round_double_ge_one:
  assumes "1 \<le> x"
  shows "num_gt (round_double x) (Finite 0)"
proof -
  from assms have nz: "x \<noteq> 0" and ax: "\<bar>x\<bar> = x" and px: "0 < x" by auto
  let ?e = "binary_exponent x"
  note b = binary_exponent_bounds [OF nz]
  have e0: "0 \<le> ?e"
  proof (rule ccontr)
    assume "\<not> 0 \<le> ?e"
    then have "2 powi (?e + 1) \<le> (2::rat) powi 0" by (intro powi_mono) simp
    with b(2) ax assms show False by simp
  qed
  then have mx: "max ?e (- 1022) = ?e" by simp
  let ?q = "(2::rat) powi (?e - 52)"
  have q: "0 < ?q" by (rule powi_pos)
  have "(2::rat) powi 52 = 2 powi ?e / ?q"
    by (simp add: powi_diff [symmetric])
  also have "\<dots> \<le> x / ?q" using b(1) ax q by (simp add: divide_right_mono)
  finally have m: "(2::rat) powi 52 \<le> x / ?q" .
  have "(of_int (2 ^ 52) :: rat) \<le> x / ?q" using m by simp
  then have "2 ^ 52 \<le> \<lfloor>x / ?q\<rfloor>" by (simp only: le_floor_iff)
  moreover have "(0::int) < 2 ^ 52" by simp
  ultimately have "0 < round_half_even (x / ?q)"
    using round_half_even_ge_floor [of "x / ?q"] by linarith
  then have "0 < of_int (round_half_even (x / ?q)) * ?q" using q by simp
  then show ?thesis
    using nz px
    by (simp add: round_double_def mx ax Let_def num_gt_def num_less_def del: power_int_numeral)
qed

lemma round_double_nonpos:
  assumes "x \<le> 0"
  shows "\<not> num_gt (round_double x) (Finite 0)"
proof (cases "x = 0")
  case True
  then show ?thesis by (simp add: round_double_def num_gt_def num_less_def)
next
  case False
  with assms have neg: "x < 0" by simp
  let ?q = "(2::rat) powi (max (binary_exponent x) (- 1022) - 52)"
  have q: "0 < ?q" by (rule powi_pos)
  then have "0 \<le> \<bar>x\<bar> / ?q" by simp
  then have "0 \<le> round_half_even (\<bar>x\<bar> / ?q)" by (rule round_half_even_nonneg)
  then have "0 \<le> of_int (round_half_even (\<bar>x\<bar> / ?q)) * ?q" using q by simp
  then show ?thesis
    using False neg
    by (simp add: round_double_def Let_def num_gt_def num_less_def mult_le_0_iff
        del: power_int_numeral)
qed

lemma Number_positive_iff: "num_gt (Number_of_bigint i) (Finite 0) \<longleftrightarrow> 0 < i"
proof (cases "0 < i")
  case True
  then have "(1::rat) \<le> of_int i" by simp
  then show ?thesis using True by (simp add: Number_of_bigint_def round_double_ge_one)
next
  case False
  then have "(of_int i :: rat) \<le> 0" by simp
  then show ?thesis using False by (simp add: Number_of_bigint_def round_double_nonpos)
qed

text \<open>Integers of magnitude below \<open>2^53\<close> are doubles.\<close>

lemma Number_of_safe_integer:
  assumes "\<bar>i\<bar> < 2 ^ 53"
  shows "Number_of_bigint i = Finite (of_int i)"
proof (cases "i = 0")
  case True
  then show ?thesis by (simp add: Number_of_bigint_def round_double_def)
next
  case False
  let ?x = "of_int i :: rat"
  let ?e = "binary_exponent ?x"
  from False have nz: "?x \<noteq> 0" by simp
  note b = binary_exponent_bounds [OF nz]
  from False have one: "1 \<le> \<bar>?x\<bar>" by (simp flip: of_int_abs)
  from assms have "(of_int \<bar>i\<bar> :: rat) < of_int (2 ^ 53)" by (simp only: of_int_less_iff)
  then have lt: "\<bar>?x\<bar> < 2 powi 53" by simp
  have e0: "0 \<le> ?e"
  proof (rule ccontr)
    assume "\<not> 0 \<le> ?e"
    then have "2 powi (?e + 1) \<le> (2::rat) powi 0" by (intro powi_mono) simp
    with b(2) one show False by simp
  qed
  have e52: "?e \<le> 52"
  proof (rule ccontr)
    assume "\<not> ?e \<le> 52"
    then have "(2::rat) powi 53 \<le> 2 powi ?e" by (intro powi_mono) simp
    with b(1) lt show False by simp
  qed
  have "\<bar>?x\<bar> / 2 powi (?e - 52) = \<bar>?x\<bar> * 2 powi (52 - ?e)"
    by (simp add: power_int_diff field_simps)
  also have "\<dots> = of_int (\<bar>i\<bar> * 2 ^ nat (52 - ?e))"
    using e52 by (simp add: power_int_def)
  finally have m: "\<bar>?x\<bar> / 2 powi (?e - 52) = of_int (\<bar>i\<bar> * 2 ^ nat (52 - ?e))" .
  show ?thesis
    unfolding Number_of_bigint_def
    using b(1) b(2) _ _ m
    by (rule round_double_exact) (use e0 e52 in simp_all)
qed

section \<open>Tier classification\<close>

lemma calculateTierAndPremium_cases:
  "calculateTierAndPremium x =
     (if 1000000 \<le> x \<and> x \<le> 99999999 then Inr \<lparr>tp_tier = 1, tp_premium = 1000000\<rparr>
      else if 100000000 \<le> x \<and> x \<le> 499000000 then Inr \<lparr>tp_tier = 2, tp_premium = 3000000\<rparr>
      else if 500000000 \<le> x \<and> x \<le> 999000000 then Inr \<lparr>tp_tier = 3, tp_premium = 7000000\<rparr>
      else if 1000000000 \<le> x \<and> x \<le> 1999000000 then Inr \<lparr>tp_tier = 4, tp_premium = 13000000\<rparr>
      else if 2000000000 \<le> x \<and> x \<le> 10000000000 then Inr \<lparr>tp_tier = 5, tp_premium = 20000000\<rparr>
      else Inl (out_of_range x))"
  unfolding calculateTierAndPremium_def TIER_BOUNDARIES_def out_of_range_def
  by (simp only: scan_boundaries.simps TierBoundary.simps)

lemma TIER_BOUNDARIES_mem:
  "b \<in> set TIER_BOUNDARIES \<longleftrightarrow>
   b = \<lparr>tb_min = 1000000, tb_max = 99999999, tb_tier = 1, tb_premium = 1000000\<rparr> \<or>
   b = \<lparr>tb_min = 100000000, tb_max = 499000000, tb_tier = 2, tb_premium = 3000000\<rparr> \<or>
   b = \<lparr>tb_min = 500000000, tb_max = 999000000, tb_tier = 3, tb_premium = 7000000\<rparr> \<or>
   b = \<lparr>tb_min = 1000000000, tb_max = 1999000000, tb_tier = 4, tb_premium = 13000000\<rparr> \<or>
   b = \<lparr>tb_min = 2000000000, tb_max = 10000000000, tb_tier = 5, tb_premium = 20000000\<rparr>"
  unfolding TIER_BOUNDARIES_def by (simp only: list.set insert_iff empty_iff simp_thms)

lemma classify_inside:
  "b \<in> set TIER_BOUNDARIES \<Longrightarrow> tb_min b \<le> x \<Longrightarrow> x \<le> tb_max b
     \<Longrightarrow> calculateTierAndPremium x = Inr \<lparr>tp_tier = tb_tier b, tp_premium = tb_premium b\<rparr>"
  unfolding TIER_BOUNDARIES_mem by (elim disjE) (simp_all add: calculateTierAndPremium_cases)

lemma classify_outside:
  "x < 1000000 \<or> x > 10000000000 \<Longrightarrow> calculateTierAndPremium x = Inl (out_of_range x)"
  by (auto simp add: calculateTierAndPremium_cases)

lemma boundaries_disjoint:
  "b \<in> set TIER_BOUNDARIES \<Longrightarrow> b' \<in> set TIER_BOUNDARIES \<Longrightarrow> b \<noteq> b'
     \<Longrightarrow> tb_max b < tb_min b' \<or> tb_max b' < tb_min b"
  unfolding TIER_BOUNDARIES_mem by (elim disjE) simp_all

text \<open>
  C5, as stated: classification raises exactly when the price is not positive or exceeds
  the maximum of the highest tier. The code refuses more: the lowest boundary starts at
  one dollar, so half a dollar (500000 micro-units), which is positive and below the
  maximum, is outside every boundary.
\<close>

theorem classify_below_minimum_counterexample:
  "\<not> (isl (calculateTierAndPremium 500000) \<longleftrightarrow> (500000 \<le> (0::int) \<or> (500000::int) > 10000000000))"
  by (simp add: calculateTierAndPremium_cases)

text \<open>
  C5, amended: a price inside one of the five documented closed boundaries is classified
  with that boundary's tier and premium; a price below the minimum of the lowest boundary
  (1000000) or above the maximum of the highest (10000000000) raises the out-of-range
  error; and the boundaries are pairwise disjoint.
\<close>

theorem classify_boundaries:
  "(b \<in> set TIER_BOUNDARIES \<and> tb_min b \<le> x \<and> x \<le> tb_max b
      \<longrightarrow> calculateTierAndPremium x = Inr \<lparr>tp_tier = tb_tier b, tp_premium = tb_premium b\<rparr>)
   \<and> (x < 1000000 \<or> x > 10000000000 \<longrightarrow> calculateTierAndPremium x = Inl (out_of_range x))
   \<and> (b \<in> set TIER_BOUNDARIES \<and> b' \<in> set TIER_BOUNDARIES \<and> b \<noteq> b'
      \<longrightarrow> tb_max b < tb_min b' \<or> tb_max b' < tb_min b)"
  using classify_inside [of b x] classify_outside [of x] boundaries_disjoint [of b b'] by blast

theorem classify_boundaries_witness:
  "calculateTierAndPremium 199990000 = Inr \<lparr>tp_tier = 2, tp_premium = 3000000\<rparr>
   \<and> calculateTierAndPremium 0 = Inl (out_of_range 0)
   \<and> tb_max (TIER_BOUNDARIES ! 1) < tb_min (TIER_BOUNDARIES ! 2)"
  using classify_boundaries [of "TIER_BOUNDARIES ! 1" 199990000 "TIER_BOUNDARIES ! 2"]
    classify_boundaries [of "TIER_BOUNDARIES ! 1" 0 "TIER_BOUNDARIES ! 2"]
  by (simp add: TIER_BOUNDARIES_def)

section \<open>Field encoding of strings\<close>

text \<open>
  C7, as stated: every unparseable string encodes to \<open>0\<close>. The encoder maps only the empty
  (or all-blank) string to \<open>0\<close>; text that \<open>BigInt\<close> cannot parse, such as \<open>abc\<close>, is
  returned as it is.
\<close>

theorem toFieldString_unparseable_counterexample:
  "StringToBigInt ''abc'' = None \<and> toFieldString (FString ''abc'') \<noteq> Inr ''0''"
  by (simp add: toFieldString_def StringToBigInt_def trim_def is_whitespace_def startsWith_def
      parse_digits_def is_digit_def digit_value_def)

text \<open>
  C7, amended: on a string the encoder always returns (it never throws); a string that is
  empty after trimming encodes to \<open>0\<close>; a non-empty string that \<open>BigInt\<close> cannot parse, and
  any non-empty string without a \<open>0x\<close>/\<open>0X\<close> prefix, is returned trimmed and otherwise
  unchanged.
\<close>

theorem toFieldString_string:
  "(\<exists>out. toFieldString (FString s) = Inr out)
   \<and> (trim s = [] \<longrightarrow> toFieldString (FString s) = Inr ''0'')
   \<and> (trim s \<noteq> [] \<and> StringToBigInt s = None \<longrightarrow> toFieldString (FString s) = Inr (trim s))
   \<and> (trim s \<noteq> [] \<and> \<not> startsWith (trim s) ''0x'' \<and> \<not> startsWith (trim s) ''0X''
        \<longrightarrow> toFieldString (FString s) = Inr (trim s))"
  by (auto simp: toFieldString_def Let_def BigInt_of_string_def BigInt_of_trim split: option.splits)

theorem toFieldString_string_witness:
  "toFieldString (FString ''   '') = Inr ''0''
   \<and> toFieldString (FString '' 0xzz '') = Inr ''0xzz''
   \<and> toFieldString (FString ''12ab'') = Inr ''12ab''"
  using toFieldString_string [of "''   ''"] toFieldString_string [of "'' 0xzz ''"]
    toFieldString_string [of "''12ab''"]
  by (simp add: StringToBigInt_def trim_def is_whitespace_def startsWith_def parse_digits_def
      is_digit_def digit_value_def)

section \<open>Eligibility\<close>

lemma checkEligibility_InrE:
  assumes "checkEligibility oracle pid originalPrice threshold = Inr r"
  obtains response p mproof cur where
    "getOraclePrices oracle = Inr response"
    "find_product (prices response) pid = Some p"
    "getMerkleProof oracle (op_id p) = Inr mproof"
    "BigInt_of_number (op_currentPrice p) = Inr cur"
    "r = \<lparr>eligible = (drop_amount originalPrice cur > 0
                     \<and> num_ge (drop_percentage originalPrice (drop_amount originalPrice cur)) threshold),
          dropPercentage = num_div (Math_round (num_mul
              (drop_percentage originalPrice (drop_amount originalPrice cur)) (Finite 100))) (Finite 100),
          dropAmount = bigint_toString (drop_amount originalPrice cur),
          currentPrice = bigint_toString cur,
          merkleRoot = opr_merkleRoot response,
          er_proof = mproof,
          payoutAmount = bigint_toString (drop_amount originalPrice cur)\<rparr>"
  using assms
  by (auto simp: checkEligibility_def Let_def split: sum.splits option.splits)

lemma drop_amount_max: "drop_amount originalPrice cur = max 0 (originalPrice - cur)"
  by (simp add: drop_amount_def max_def)

lemma bigint_toString_0: "bigint_toString 0 = ''0''"
  by (simp add: bigint_toString_def digits10.simps digit_char_def)

lemma upper_alnum_not_whitespace: "is_upper_alnum c \<Longrightarrow> \<not> is_whitespace c"
  by (auto simp: is_upper_alnum_def is_whitespace_def Let_def)

lemma normalize_filter: "normalizeOracleProductId v = filter is_upper_alnum (toUpperCase v)"
proof -
  let ?f = "filter is_upper_alnum (toUpperCase v)"
  have "?f = [] \<or> (\<not> is_whitespace (hd ?f) \<and> \<not> is_whitespace (last ?f))"
  proof (cases "?f = []")
    case False
    then have "hd ?f \<in> set ?f" "last ?f \<in> set ?f"
      by (rule hd_in_set, rule last_in_set)
    then have "is_upper_alnum (hd ?f)" "is_upper_alnum (last ?f)"
      by (simp_all only: set_filter mem_Collect_eq)
    then show ?thesis by (simp add: upper_alnum_not_whitespace)
  qed simp
  then show ?thesis unfolding normalizeOracleProductId_def by (rule trim_fixed)
qed

lemma find_product_paths:
  "find_product catalog pid =
     (if normalizeOracleProductId pid \<noteq> []
      then find (\<lambda>p. normalizeOracleProductId (op_id p) = normalizeOracleProductId pid) catalog
      else find (\<lambda>p. toLowerCase (trim (op_id p)) = toLowerCase (trim pid)) catalog)"
  by (simp add: find_product_def matches_product_def [abs_def] Let_def)

lemma not_found_if_no_match:
  assumes "getOraclePrices oracle = Inr response" "find_product (prices response) pid = None"
  shows "checkEligibility oracle pid originalPrice threshold = Inl (product_not_found pid)"
  using assms by (simp add: checkEligibility_def)

lemma no_match_either_path:
  assumes "\<forall>p \<in> set catalog. normalizeOracleProductId (op_id p) \<noteq> normalizeOracleProductId pid
              \<and> toLowerCase (trim (op_id p)) \<noteq> toLowerCase (trim pid)"
  shows "find_product catalog pid = None"
  using assms by (auto simp: find_product_paths find_None_iff)

text \<open>
  C8: the identifier is matched by the normalised comparison (upper case, everything outside
  \<open>A-Z0-9\<close> removed; the final \<open>trim\<close> changes nothing); when the normalised
  identifier is empty the comparison falls back to the trimmed, lower-cased identifiers; the
  first catalog entry accepted is the match, and the call fails with the not-found error
  when no entry is accepted, in particular when none matches under either comparison.
\<close>

theorem product_matching:
  "normalizeOracleProductId v = filter is_upper_alnum (toUpperCase v)
   \<and> find_product catalog pid =
       (if normalizeOracleProductId pid \<noteq> []
        then find (\<lambda>p. normalizeOracleProductId (op_id p) = normalizeOracleProductId pid) catalog
        else find (\<lambda>p. toLowerCase (trim (op_id p)) = toLowerCase (trim pid)) catalog)
   \<and> (getOraclePrices oracle = Inr response \<and> find_product (prices response) pid = None
        \<longrightarrow> checkEligibility oracle pid originalPrice threshold = Inl (product_not_found pid))
   \<and> (getOraclePrices oracle = Inr response
        \<and> (\<forall>p \<in> set (prices response).
              normalizeOracleProductId (op_id p) \<noteq> normalizeOracleProductId pid
              \<and> toLowerCase (trim (op_id p)) \<noteq> toLowerCase (trim pid))
        \<longrightarrow> checkEligibility oracle pid originalPrice threshold = Inl (product_not_found pid))
   \<and> (checkEligibility oracle pid originalPrice threshold = Inr r
        \<longrightarrow> (\<exists>response p. getOraclePrices oracle = Inr response
               \<and> find_product (prices response) pid = Some p
               \<and> getMerkleProof oracle (op_id p) = Inr (er_proof r)))"
proof (intro conjI impI)
  show "normalizeOracleProductId v = filter is_upper_alnum (toUpperCase v)"
    by (rule normalize_filter)
  show "find_product catalog pid =
       (if normalizeOracleProductId pid \<noteq> []
        then find (\<lambda>p. normalizeOracleProductId (op_id p) = normalizeOracleProductId pid) catalog
        else find (\<lambda>p. toLowerCase (trim (op_id p)) = toLowerCase (trim pid)) catalog)"
    by (rule find_product_paths)
next
  assume "getOraclePrices oracle = Inr response \<and> find_product (prices response) pid = None"
  then show "checkEligibility oracle pid originalPrice threshold = Inl (product_not_found pid)"
    by (simp add: not_found_if_no_match)
next
  assume a: "getOraclePrices oracle = Inr response
        \<and> (\<forall>p \<in> set (prices response).
              normalizeOracleProductId (op_id p) \<noteq> normalizeOracleProductId pid
              \<and> toLowerCase (trim (op_id p)) \<noteq> toLowerCase (trim pid))"
  then have "find_product (prices response) pid = None" by (intro no_match_either_path) blast
  with a show "checkEligibility oracle pid originalPrice threshold = Inl (product_not_found pid)"
    by (simp add: not_found_if_no_match)
next
  assume "checkEligibility oracle pid originalPrice threshold = Inr r"
  then show "\<exists>response p. getOraclePrices oracle = Inr response
               \<and> find_product (prices response) pid = Some p
               \<and> getMerkleProof oracle (op_id p) = Inr (er_proof r)"
    by (elim checkEligibility_InrE) auto
qed

lemma drop_percentage_eq:
  "drop_percentage originalPrice d =
     (if 0 < originalPrice
      then num_mul (num_div (Number_of_bigint d) (Number_of_bigint originalPrice)) (Finite 100)
      else Finite 0)"
  by (simp add: drop_percentage_def Let_def Number_positive_iff)

lemma round_double_int:
  "\<bar>i\<bar> < 2 ^ 53 \<Longrightarrow> round_double (of_int i) = Finite (of_int i)"
  using Number_of_safe_integer [of i] by (simp add: Number_of_bigint_def)







lemma Number_orig: "Number_of_bigint 199990000 = Finite 199990000"
  using Number_of_safe_integer [of 199990000] by simp

lemma Number_drop: "Number_of_bigint 100000000 = Finite 100000000"
  using Number_of_safe_integer [of 100000000] by simp

lemma rd_ratio: "round_double (10000 / 19999) = Finite (4503824818611427 / 9007199254740992)"
  by (rule round_double_eqI [where e = "- 1" and k = 4503824818611427]) simp_all

lemma rd_pct:
  "round_double (112595620465285675 / 2251799813685248) = Finite (7037226279080355 / 140737488355328)"
  by (rule round_double_eqI [where e = 5 and k = 7037226279080355]) simp_all

lemma rd_pct100:
  "round_double (175930656977008875 / 35184372088832) = Finite (5497833030531527 / 1099511627776)"
  by (rule round_double_eqI [where e = 12 and k = 5497833030531527]) simp_all

lemma rd_50: "round_double 50 = Finite 50"
  using round_double_int [of 50] by simp

lemma scenario_percentage:
  "drop_percentage 199990000 100000000 = Finite (7037226279080355 / 140737488355328)"
  by (simp add: drop_percentage_eq Number_orig Number_drop num_div_def num_mul_def rd_ratio rd_pct)

lemma Math_round_eqI:
  assumes "of_int k - 1 / 2 \<le> x" "x < of_int k + 1 / 2"
  shows "Math_round (Finite x) = Finite (of_int k)"
proof -
  have "\<lfloor>x + 1 / 2\<rfloor> = k" using assms by (intro floor_unique) simp_all
  then show ?thesis by (simp add: Math_round_def)
qed

lemma mr_5000: "Math_round (Finite (5497833030531527 / 1099511627776)) = Finite 5000"
  using Math_round_eqI [of 5000 "5497833030531527 / 1099511627776"] by simp

lemma scenario_rounded:
  "num_div (Math_round (num_mul (Finite (7037226279080355 / 140737488355328)) (Finite 100))) (Finite 100)
     = Finite 50"
  by (simp add: num_mul_def rd_pct100 mr_5000 num_div_def rd_50)

lemma toString_drop: "bigint_toString 100000000 = ''100000000''"
  by (simp add: bigint_toString_def digits10.simps digit_char_def)

lemma toString_cur: "bigint_toString 99990000 = ''99990000''"
  by (simp add: bigint_toString_def digits10.simps digit_char_def)

lemma BigInt_of_integer_number: "BigInt_of_number (Finite (of_int i)) = Inr i"
  by (simp add: BigInt_of_number_def)

lemma scenario_eligibility:
  assumes "getOraclePrices oracle = Inr response"
    and "find_product (prices response) pid = Some p"
    and "getMerkleProof oracle (op_id p) = Inr mp"
    and "op_currentPrice p = Finite 99990000"
  shows "checkEligibility oracle pid 199990000 (Finite 10) =
     Inr \<lparr>eligible = True, dropPercentage = Finite 50, dropAmount = ''100000000'',
          currentPrice = ''99990000'', merkleRoot = opr_merkleRoot response, er_proof = mp,
          payoutAmount = ''100000000''\<rparr>"
proof -
  have cur: "BigInt_of_number (op_currentPrice p) = Inr 99990000"
    using BigInt_of_integer_number [of 99990000] by (simp add: assms(4))
  have d: "drop_amount 199990000 99990000 = 100000000" by (simp add: drop_amount_def)
  have ge: "num_ge (Finite (7037226279080355 / 140737488355328)) (Finite 10)"
    by (simp add: num_ge_def num_less_def)
  show ?thesis
    by (simp add: checkEligibility_def assms(1,2,3) cur d scenario_percentage scenario_rounded ge
        toString_drop toString_cur)
qed


lemma normalize_B07XA: "normalizeOracleProductId ''B07XA'' = ''B07XA''" by code_simp
lemma normalize_b07xa: "normalizeOracleProductId ''b0-7x a'' = ''B07XA''" by code_simp

lemma scenario_find:
  "find_product (prices (projr (getOraclePrices scenario_oracle))) ''B07XA''
     = Some \<lparr>op_id = ''b0-7x a'', op_name = ''Widget'', op_currentPrice = Finite 99990000,
             op_basePrice = Finite 199990000, op_change = Finite 0\<rparr>"
  by (simp add: scenario_oracle_def find_product_paths normalize_B07XA normalize_b07xa)

lemma scenario_check:
  "checkEligibility scenario_oracle ''B07XA'' 199990000 (Finite 10) =
     Inr \<lparr>eligible = True, dropPercentage = Finite 50, dropAmount = ''100000000'',
          currentPrice = ''99990000'', merkleRoot = ''0x01'', er_proof = scenario_proof,
          payoutAmount = ''100000000''\<rparr>"
proof -
  let ?response = "projr (getOraclePrices scenario_oracle)"
  let ?p = "\<lparr>op_id = ''b0-7x a'', op_name = ''Widget'', op_currentPrice = Finite 99990000,
             op_basePrice = Finite 199990000, op_change = Finite 0\<rparr>"
  have 1: "getOraclePrices scenario_oracle = Inr ?response" by (simp add: scenario_oracle_def)
  have 3: "getMerkleProof scenario_oracle (op_id ?p) = Inr scenario_proof"
    by (simp add: scenario_oracle_def)
  have 4: "op_currentPrice ?p = Finite 99990000" by simp
  have 5: "opr_merkleRoot ?response = ''0x01''" by (simp add: scenario_oracle_def)
  show ?thesis
    using scenario_eligibility [OF 1 scenario_find 3 4] by (simp only: 5)
qed


text \<open>
  C10: on success the payout equals the drop amount, which is the whole difference between
  the original price and the current price of the matched product (no tier, premium or
  coverage limit enters), and is zero when the current price is at or above the original.
\<close>

theorem payout_is_full_drop:
  assumes "checkEligibility oracle pid originalPrice threshold = Inr r"
  shows "payoutAmount r = dropAmount r
    \<and> (\<exists>response p cur.
          getOraclePrices oracle = Inr response
          \<and> find_product (prices response) pid = Some p
          \<and> BigInt_of_number (op_currentPrice p) = Inr cur
          \<and> payoutAmount r = bigint_toString (max 0 (originalPrice - cur))
          \<and> (originalPrice \<le> cur \<longrightarrow> payoutAmount r = ''0''))"
  using assms
proof (elim checkEligibility_InrE)
  fix response p mproof cur
  assume h: "getOraclePrices oracle = Inr response"
    "find_product (prices response) pid = Some p"
    "BigInt_of_number (op_currentPrice p) = Inr cur"
  assume r: "r = \<lparr>eligible = (drop_amount originalPrice cur > 0
                   \<and> num_ge (drop_percentage originalPrice (drop_amount originalPrice cur)) threshold),
        dropPercentage = num_div (Math_round (num_mul
            (drop_percentage originalPrice (drop_amount originalPrice cur)) (Finite 100))) (Finite 100),
        dropAmount = bigint_toString (drop_amount originalPrice cur),
        currentPrice = bigint_toString cur,
        merkleRoot = opr_merkleRoot response,
        er_proof = mproof,
        payoutAmount = bigint_toString (drop_amount originalPrice cur)\<rparr>"
  have "payoutAmount r = bigint_toString (max 0 (originalPrice - cur))"
    by (simp add: r drop_amount_max)
  moreover have "originalPrice \<le> cur \<longrightarrow> payoutAmount r = ''0''"
    by (simp add: r drop_amount_def bigint_toString_0)
  moreover have "payoutAmount r = dropAmount r" by (simp add: r)
  ultimately show ?thesis using h by blast
qed

theorem payout_is_full_drop_witness:
  "payoutAmount (projr (checkEligibility scenario_oracle ''B07XA'' 199990000 (Finite 10)))
     = ''100000000''
   \<and> dropAmount (projr (checkEligibility scenario_oracle ''B07XA'' 199990000 (Finite 10)))
     = ''100000000''"
  using payout_is_full_drop [OF scenario_check] by (simp add: scenario_check)

lemma normalize_ZZZ: "normalizeOracleProductId ''ZZZ'' = ''ZZZ''" by code_simp
lemma lower_ZZZ: "toLowerCase (trim ''ZZZ'') = ''zzz''" by code_simp
lemma lower_id: "toLowerCase (trim ''b0-7x a'') = ''b0-7x a''" by code_simp

theorem product_matching_witness:
  "find_product (prices (projr (getOraclePrices scenario_oracle))) ''B07XA''
       = find (\<lambda>p. normalizeOracleProductId (op_id p) = ''B07XA'')
           (prices (projr (getOraclePrices scenario_oracle)))
   \<and> checkEligibility scenario_oracle ''ZZZ'' 199990000 (Finite 10) = Inl (product_not_found ''ZZZ'')
   \<and> er_proof (projr (checkEligibility scenario_oracle ''B07XA'' 199990000 (Finite 10))) = scenario_proof"
proof -
  let ?resp = "projr (getOraclePrices scenario_oracle)"
  let ?r = "projr (checkEligibility scenario_oracle ''B07XA'' 199990000 (Finite 10))"
  have g: "getOraclePrices scenario_oracle = Inr ?resp" by (simp add: scenario_oracle_def)
  have nf: "find_product (prices ?resp) ''ZZZ'' = None"
    by (simp add: scenario_oracle_def find_product_paths normalize_ZZZ normalize_b07xa)
  have ok: "checkEligibility scenario_oracle ''B07XA'' 199990000 (Finite 10) = Inr ?r"
    by (simp add: scenario_check)
  note pm = product_matching [of "''ZZZ''" "prices ?resp" "''B07XA''" scenario_oracle ?resp
      199990000 "Finite 10" ?r]
  note pm' = product_matching [of "''ZZZ''" "prices ?resp" "''ZZZ''" scenario_oracle ?resp
      199990000 "Finite 10" ?r]
  have 1: "find_product (prices ?resp) ''B07XA''
       = find (\<lambda>p. normalizeOracleProductId (op_id p) = ''B07XA'') (prices ?resp)"
    using pm by (simp add: normalize_B07XA)
  have 2: "checkEligibility scenario_oracle ''ZZZ'' 199990000 (Finite 10) = Inl (product_not_found ''ZZZ'')"
    using pm' [THEN conjunct2, THEN conjunct2, THEN conjunct1] g nf by simp
  have "\<exists>response p. getOraclePrices scenario_oracle = Inr response
               \<and> find_product (prices response) ''B07XA'' = Some p
               \<and> getMerkleProof scenario_oracle (op_id p) = Inr (er_proof ?r)"
    using pm [THEN conjunct2, THEN conjunct2, THEN conjunct2, THEN conjunct2] ok by (rule mp)
  then obtain p :: OraclePrice where "getMerkleProof scenario_oracle (op_id p) = Inr (er_proof ?r)"
    by blast
  then have 3: "er_proof ?r = scenario_proof" by (simp add: scenario_oracle_def)
  from 1 2 3 show ?thesis by blast
qed

section \<open>Policy store\<close>


lemma get_save:
  "getPoliciesForAddress (savePolicyForAddress rt a p) b =
     (case rt of
        Server \<Rightarrow> []
      | Browser ls \<Rightarrow>
          if policies_key b = policies_key a \<and> writable ls
             \<and> \<not> list_ex (\<lambda>q. transactionHash q = transactionHash p) (getPoliciesForAddress rt a)
          then getPoliciesForAddress rt a @ [p]
          else getPoliciesForAddress rt b)"
  by (auto simp: savePolicyForAddress_def getPoliciesForAddress_def setItem_def Let_def
      split: Runtime.splits option.splits)



lemma save_writable_kept:
  "savePolicyForAddress (Browser ls) a p = Browser ls' \<Longrightarrow> writable ls' = writable ls"
  by (auto simp: savePolicyForAddress_def Let_def setItem_def split: if_splits)

lemma get_Server: "getPoliciesForAddress Server a = []"
  by (simp add: getPoliciesForAddress_def)

lemma get_same_key:
  "policies_key b = policies_key a \<Longrightarrow> getPoliciesForAddress rt b = getPoliciesForAddress rt a"
  by (cases rt) (simp_all add: getPoliciesForAddress_def)





lemma findIndex_Some:
  "findIndex P xs = Some i \<Longrightarrow> i < length xs \<and> P (xs ! i) \<and> (\<forall>j<i. \<not> P (xs ! j))"
proof (induction xs arbitrary: i)
  case Nil
  then show ?case by simp
next
  case (Cons x xs)
  show ?case
  proof (cases "P x")
    case True
    with Cons.prems show ?thesis by simp
  next
    case False
    with Cons.prems obtain k where k: "findIndex P xs = Some k" "i = Suc k" by auto
    from Cons.IH [OF k(1)] False k(2) show ?thesis
      by (auto simp: nth_Cons split: nat.splits)
  qed
qed

lemma findIndex_None: "findIndex P xs = None \<longleftrightarrow> (\<forall>x \<in> set xs. \<not> P x)"
  by (induction xs) auto

lemma get_update:
  "getPoliciesForAddress (snd (updatePolicyForAddress rt a pid f)) b =
     (case rt of
        Server \<Rightarrow> []
      | Browser ls \<Rightarrow>
          (case findIndex (\<lambda>q. policyId q = pid) (getPoliciesForAddress rt a) of
             None \<Rightarrow> getPoliciesForAddress rt b
           | Some i \<Rightarrow>
               if policies_key b = policies_key a \<and> writable ls
               then (getPoliciesForAddress rt a)[i := f (getPoliciesForAddress rt a ! i)]
               else getPoliciesForAddress rt b))"
proof (cases rt)
  case Server
  then show ?thesis by (simp add: updatePolicyForAddress_def get_Server)
next
  case (Browser ls)
  show ?thesis
  proof (cases "findIndex (\<lambda>q. policyId q = pid) (getPoliciesForAddress rt a)")
    case None
    with Browser show ?thesis by (simp add: updatePolicyForAddress_def Let_def)
  next
    case (Some i)
    show ?thesis
    proof (cases "writable ls")
      case True
      have "getPoliciesForAddress
              (Browser (ls\<lparr>items := (items ls)(policies_key a \<mapsto> v)\<rparr>)) b =
            (if policies_key b = policies_key a then v else getPoliciesForAddress rt b)" for v
        using Browser by (simp add: getPoliciesForAddress_def)
      with Browser Some True show ?thesis
        by (simp add: updatePolicyForAddress_def Let_def setItem_def)
    next
      case False
      with Browser Some show ?thesis
        by (simp add: updatePolicyForAddress_def Let_def setItem_def)
    qed
  qed
qed

lemma get_update_cases:
  "getPoliciesForAddress (snd (updatePolicyForAddress rt a pid f)) b = getPoliciesForAddress rt b
   \<or> (\<exists>i. findIndex (\<lambda>q. policyId q = pid) (getPoliciesForAddress rt a) = Some i
          \<and> getPoliciesForAddress rt b = getPoliciesForAddress rt a
          \<and> getPoliciesForAddress (snd (updatePolicyForAddress rt a pid f)) b
              = (getPoliciesForAddress rt a)[i := f (getPoliciesForAddress rt a ! i)])"
proof (cases rt)
  case Server
  show ?thesis unfolding Server by (simp add: get_update get_Server)
next
  case (Browser ls)
  show ?thesis
  proof (cases "findIndex (\<lambda>q. policyId q = pid) (getPoliciesForAddress (Browser ls) a)")
    case None
    show ?thesis unfolding Browser by (simp add: get_update None)
  next
    case (Some i)
    show ?thesis
    proof (cases "policies_key b = policies_key a \<and> writable ls")
      case True
      then have "getPoliciesForAddress (Browser ls) b = getPoliciesForAddress (Browser ls) a"
        by (intro get_same_key) simp
      with True show ?thesis unfolding Browser by (simp add: get_update Some)
    next
      case False
      then show ?thesis unfolding Browser by (auto simp add: get_update Some)
    qed
  qed
qed

lemma update_length:
  "length (getPoliciesForAddress (snd (updatePolicyForAddress rt a pid f)) b)
     = length (getPoliciesForAddress rt b)"
  using get_update_cases [of rt a pid f b] by (elim disjE exE conjE) simp_all

lemma update_other_records:
  assumes "j < length (getPoliciesForAddress rt b)"
    and "policyId (getPoliciesForAddress rt b ! j) \<noteq> pid"
  shows "getPoliciesForAddress (snd (updatePolicyForAddress rt a pid f)) b ! j
           = getPoliciesForAddress rt b ! j"
  using get_update_cases [of rt a pid f b]
proof (elim disjE exE conjE)
  fix i
  let ?xs = "getPoliciesForAddress rt a"
  assume i: "findIndex (\<lambda>q. policyId q = pid) ?xs = Some i"
    and same: "getPoliciesForAddress rt b = ?xs"
    and upd: "getPoliciesForAddress (snd (updatePolicyForAddress rt a pid f)) b = ?xs[i := f (?xs ! i)]"
  from findIndex_Some [OF i] have "policyId (?xs ! i) = pid" by simp
  with assms(2) have ij: "i \<noteq> j" unfolding same by auto
  show ?thesis unfolding upd same using ij by simp
qed simp

lemma merge_policy_keeps:
  assumes "u_status u = None" "u_secretCommitment u = None" "u_premium u = None"
  shows "status (merge_policy u q) = status q"
    and "secretCommitment (merge_policy u q) = secretCommitment q"
    and "premium (merge_policy u q) = premium q"
  using assms by (simp_all add: merge_policy_def spread_def spread_opt_def)

lemma merge_keeps_fields:
  assumes "u_status u = None" "u_secretCommitment u = None" "u_premium u = None"
  shows "map (\<lambda>q. (status q, secretCommitment q, premium q))
           (getPoliciesForAddress (snd (mergePolicyForAddress rt a pid u)) b)
       = map (\<lambda>q. (status q, secretCommitment q, premium q)) (getPoliciesForAddress rt b)"
  using get_update_cases [of rt a pid "merge_policy u" b]
proof (elim disjE exE conjE)
  fix i
  let ?xs = "getPoliciesForAddress rt a"
  let ?g = "\<lambda>q. (status q, secretCommitment q, premium q)"
  assume i: "findIndex (\<lambda>q. policyId q = pid) ?xs = Some i"
    and same: "getPoliciesForAddress rt b = ?xs"
    and upd: "getPoliciesForAddress (snd (updatePolicyForAddress rt a pid (merge_policy u))) b
               = ?xs[i := merge_policy u (?xs ! i)]"
  from findIndex_Some [OF i] have il: "i < length ?xs" by simp
  have "?g (merge_policy u (?xs ! i)) = ?g (?xs ! i)"
    using merge_policy_keeps [OF assms] by simp
  then have "map ?g (?xs[i := merge_policy u (?xs ! i)]) = map ?g ?xs"
    using il by (simp add: map_update list_update_same_conv)
  then show ?thesis unfolding mergePolicyForAddress_def upd same .
qed (simp add: mergePolicyForAddress_def)

lemma save_keeps_records:
  "\<exists>added. getPoliciesForAddress (savePolicyForAddress rt a p) b = getPoliciesForAddress rt b @ added"
proof (cases "getPoliciesForAddress (savePolicyForAddress rt a p) b = getPoliciesForAddress rt b")
  case True
  then show ?thesis by simp
next
  case False
  then obtain ls where rt: "rt = Browser ls" and k: "policies_key b = policies_key a"
    and new: "getPoliciesForAddress (savePolicyForAddress rt a p) b = getPoliciesForAddress rt a @ [p]"
    unfolding get_save by (cases rt) (auto simp: get_Server split: if_splits)
  from get_same_key [OF k, of rt] new show ?thesis by simp
qed



lemma key_AB: "policies_key ''0xAB'' = ''zkpp_policies_0xab''" by code_simp
lemma key_ab: "policies_key ''0xab'' = ''zkpp_policies_0xab''" by code_simp
lemma lower_AB: "toLowerCase ''0xAB'' = ''0xab''" by code_simp
lemma lower_ab: "toLowerCase ''0xab'' = ''0xab''" by code_simp


lemma get_empty_items: "getPoliciesForAddress (Browser \<lparr>items = Map.empty, writable = w\<rparr>) a = []"
  by (simp add: getPoliciesForAddress_def)



text \<open>
  C1, as stated: no store operation changes the status, commitment or premium of a claimed
  record. The store applies whatever the caller passes: merging \<open>status: active\<close> and a
  new premium into a claimed record overwrites both.
\<close>

theorem claimed_record_overwritten_counterexample:
  "map status (getPoliciesForAddress claimed_store ''0xab'') = [Some Claimed]
   \<and> map (\<lambda>q. (status q, premium q))
        (getPoliciesForAddress
           (snd (mergePolicyForAddress claimed_store ''0xab'' ''7''
                  (no_updates\<lparr>u_status := Some Active, u_premium := Some ''1''\<rparr>))) ''0xab'')
       = [(Some Active, ''1'')]"
proof -
  let ?p = "example_policy\<lparr>status := Some Claimed\<rparr>"
  have g: "getPoliciesForAddress claimed_store ''0xab'' = [?p]"
    by (simp add: claimed_store_def get_save key_AB key_ab get_empty_items empty_browser_def)
  have w: "claimed_store = Browser \<lparr>items = [''zkpp_policies_0xab'' \<mapsto> [?p]], writable = True\<rparr>"
    by (simp add: claimed_store_def savePolicyForAddress_def empty_browser_def key_AB
        getPoliciesForAddress_def setItem_def)
  have i: "findIndex (\<lambda>q. policyId q = ''7'') [?p] = Some 0"
    by (simp add: example_policy_def)
  have "getPoliciesForAddress
           (snd (mergePolicyForAddress claimed_store ''0xab'' ''7''
                  (no_updates\<lparr>u_status := Some Active, u_premium := Some ''1''\<rparr>))) ''0xab''
        = [merge_policy (no_updates\<lparr>u_status := Some Active, u_premium := Some ''1''\<rparr>) ?p]"
    unfolding mergePolicyForAddress_def get_update g i
    by (simp add: w)
  then show ?thesis
    by (simp add: g merge_policy_def spread_def spread_opt_def no_updates_def)
qed

text \<open>
  C1, amended: \<open>save\<close> only appends, so it changes no stored record; a merge whose partial
  record names none of \<open>status\<close>, \<open>secretCommitment\<close>, \<open>premium\<close> leaves these three
  fields of every stored record, claimed or not, as they were; and an update or merge for
  one policy id leaves every record with another id untouched. The store itself imposes no
  order on status values.
\<close>

theorem store_keeps_unmentioned_fields:
  "(\<exists>added. getPoliciesForAddress (savePolicyForAddress rt a p) b = getPoliciesForAddress rt b @ added)
   \<and> (u_status u = None \<and> u_secretCommitment u = None \<and> u_premium u = None
      \<longrightarrow> map (\<lambda>q. (status q, secretCommitment q, premium q))
            (getPoliciesForAddress (snd (mergePolicyForAddress rt a pid u)) b)
          = map (\<lambda>q. (status q, secretCommitment q, premium q)) (getPoliciesForAddress rt b))
   \<and> (j < length (getPoliciesForAddress rt b) \<and> policyId (getPoliciesForAddress rt b ! j) \<noteq> pid
      \<longrightarrow> getPoliciesForAddress (snd (updatePolicyForAddress rt a pid f)) b ! j
            = getPoliciesForAddress rt b ! j)
   \<and> length (getPoliciesForAddress (snd (updatePolicyForAddress rt a pid f)) b)
       = length (getPoliciesForAddress rt b)"
  using save_keeps_records [of rt a p b] merge_keeps_fields [of u rt a pid b]
    update_other_records [of j rt b pid a f] update_length [of rt a pid f b]
  by blast

theorem store_keeps_unmentioned_fields_witness:
  "map (\<lambda>q. (status q, secretCommitment q, premium q))
      (getPoliciesForAddress
         (snd (mergePolicyForAddress claimed_store ''0xab'' ''7''
                (no_updates\<lparr>u_claimTxHash := Some ''0xcc''\<rparr>))) ''0xab'')
     = [(Some Claimed, ''0x0b'', ''3000000'')]
   \<and> getPoliciesForAddress
         (snd (updatePolicyForAddress claimed_store ''0xab'' ''8'' (\<lambda>q. q\<lparr>status := Some Active\<rparr>)))
         ''0xab'' ! 0
       = example_policy\<lparr>status := Some Claimed\<rparr>"
proof -
  let ?p = "example_policy\<lparr>status := Some Claimed\<rparr>"
  have g: "getPoliciesForAddress claimed_store ''0xab'' = [?p]"
    by (simp add: claimed_store_def get_save key_AB key_ab get_empty_items empty_browser_def)
  note t = store_keeps_unmentioned_fields [where rt = claimed_store and a = "''0xab''"
      and b = "''0xab''" and u = "no_updates\<lparr>u_claimTxHash := Some ''0xcc''\<rparr>" and pid = "''7''"]
  note t' = store_keeps_unmentioned_fields [where rt = claimed_store and a = "''0xab''"
      and b = "''0xab''" and j = 0 and pid = "''8''" and f = "\<lambda>q. q\<lparr>status := Some Active\<rparr>"]
  have 1: "map (\<lambda>q. (status q, secretCommitment q, premium q))
      (getPoliciesForAddress
         (snd (mergePolicyForAddress claimed_store ''0xab'' ''7''
                (no_updates\<lparr>u_claimTxHash := Some ''0xcc''\<rparr>))) ''0xab'')
     = [(Some Claimed, ''0x0b'', ''3000000'')]"
    using t [THEN conjunct2, THEN conjunct1] by (simp add: no_updates_def g example_policy_def)
  have 2: "getPoliciesForAddress
         (snd (updatePolicyForAddress claimed_store ''0xab'' ''8'' (\<lambda>q. q\<lparr>status := Some Active\<rparr>)))
         ''0xab'' ! 0 = ?p"
    using t' [THEN conjunct2, THEN conjunct2, THEN conjunct1] by (simp add: g example_policy_def)
  from 1 2 show ?thesis by simp
qed

section \<open>Commitment\<close>

lemma byte_hex_digits:
  "byte_hex b = [digit_char (unat b div 16), digit_char (unat b mod 16)]"
proof -
  have lt: "unat b < 256" using unsigned_less [of b, where ?'a = nat] by simp
  show ?thesis
  proof (cases "unat b < 16")
    case True
    then show ?thesis
      by (simp add: byte_hex_def padStart_def digits16.simps digit_char_def)
  next
    case False
    from lt have "unat b div 16 < 16" by simp
    with False show ?thesis
      by (simp add: byte_hex_def padStart_def digits16.simps [of "unat b"]
          digits16.simps [of "unat b div 16"])
  qed
qed

lemma byte_hex_fold:
  "foldl (\<lambda>acc c. acc * 16 + the (digit_value c)) a (byte_hex b) = a * 256 + unat b"
proof -
  have lt: "unat b < 256" using unsigned_less [of b, where ?'a = nat] by simp
  then have d: "unat b div 16 < 16" by simp
  have m: "unat b mod 16 < 16" by simp
  show ?thesis
    by (simp add: byte_hex_digits digit_value_digit_char [OF d] digit_value_digit_char [OF m])
qed

lemma salt_hex_fold:
  "foldl (\<lambda>acc c. acc * 16 + the (digit_value c)) a (concat (map byte_hex bs))
     = foldl (\<lambda>acc b. acc * 256 + unat b) a bs"
  by (induction bs arbitrary: a) (simp_all add: byte_hex_fold)

lemma salt_hex_digits: "list_all (is_digit 16) (concat (map byte_hex bs))"
proof -
  have "list_all (is_digit 16) (byte_hex b)" for b
  proof -
    have "unat b < 256" using unsigned_less [of b, where ?'a = nat] by simp
    then have "unat b div 16 < 16" by simp
    then show ?thesis by (simp add: byte_hex_digits is_digit_digit_char)
  qed
  then show ?thesis by (induction bs) simp_all
qed

lemma salt_parse:
  assumes "saltArray \<noteq> []"
  shows "StringToBigInt (''0x'' @ concat (map byte_hex saltArray)) = Some (int (bytes_value saltArray))"
proof -
  obtain b bs where s: "saltArray = b # bs" using assms by (cases saltArray) auto
  have ne: "concat (map byte_hex saltArray) \<noteq> []" by (simp add: s byte_hex_digits)
  from parse_0x [OF ne salt_hex_digits]
  show ?thesis by (simp add: digits_value_def salt_hex_fold bytes_value_def)
qed

lemma keccak_parse: "StringToBigInt (ethers_keccak256 keccak s) = Some (uint (keccak s))"
  by (simp add: ethers_keccak256_def StringToBigInt_hex64)

lemma salt_parse_cons:
  "saltArray \<noteq> [] \<Longrightarrow>
   StringToBigInt (CHR ''0'' # CHR ''x'' # concat (map byte_hex saltArray))
     = Some (int (bytes_value saltArray))"
  using salt_parse [of saltArray] by simp

lemma buildCommitment_value:
  assumes price: "BigInt_of_number (Math_round (num_mul (purchasePriceUsd invoice)
                    (Number_of_bigint TOKEN_MULTIPLIER))) = Inr price"
    and tierp: "calculateTierAndPremium price = Inr tp"
    and date: "BigInt_of_number (Math_floor (num_div (date_getTime (purchaseDate invoice)) (Finite 1000)))
                 = Inr date"
    and salt: "saltArray \<noteq> []"
  shows "buildCommitment poseidon keccak date_getTime saltArray invoice =
     Inr \<lparr>commitment = hex64 (poseidon
              [uint (keccak (orderNumber invoice)), price, date,
               poseidon [uint (keccak (productId invoice))], int (bytes_value saltArray), tp_tier tp]),
          details =
            \<lparr>orderHash = ethers_keccak256 keccak (orderNumber invoice), invoicePrice = price,
             invoiceDate = Math_floor (num_div (date_getTime (purchaseDate invoice)) (Finite 1000)),
             productHash = poseidon [uint (keccak (productId invoice))],
             salt = int (bytes_value saltArray), selectedTier = tp_tier tp\<rparr>,
          cr_tier = tp_tier tp, cr_premium = tp_premium tp\<rparr>"
  by (simp add: buildCommitment_def Let_def price tierp date salt_parse_cons [OF salt]
      BigInt_of_string_def keccak_parse)

text \<open>
  C4: for an invoice whose price rounds to micro-units inside a tier and whose date parses,
  and with salt bytes drawn, \<open>buildCommitment\<close> returns; the commitment is Poseidon of the six
  opening fields (order hash, invoice price, invoice date, product hash, salt, selected
  tier), written as \<open>0x\<close> and exactly 64 hexadecimal digits that read back, big-endian, as
  that value. The result is a function of the invoice and the salt bytes, so the same
  inputs and salt give the same commitment. Poseidon is taken to return canonical field
  elements, which are below \<open>2^256\<close>.
\<close>

theorem buildCommitment_commitment:
  assumes field: "\<forall>xs. 0 \<le> poseidon xs \<and> poseidon xs < 2 ^ 256"
    and price: "BigInt_of_number (Math_round (num_mul (purchasePriceUsd invoice)
                    (Number_of_bigint TOKEN_MULTIPLIER))) = Inr price"
    and tierp: "calculateTierAndPremium price = Inr tp"
    and date: "BigInt_of_number (Math_floor (num_div (date_getTime (purchaseDate invoice)) (Finite 1000)))
                 = Inr date"
    and salt: "saltArray \<noteq> []"
  shows "\<exists>r. buildCommitment poseidon keccak date_getTime saltArray invoice = Inr r
     \<and> invoicePrice (details r) = price
     \<and> BigInt_of_number (invoiceDate (details r)) = Inr date
     \<and> StringToBigInt (orderHash (details r)) = Some (uint (keccak (orderNumber invoice)))
     \<and> productHash (details r) = poseidon [uint (keccak (productId invoice))]
     \<and> salt (details r) = int (bytes_value saltArray)
     \<and> selectedTier (details r) = tp_tier tp
     \<and> cr_tier r = tp_tier tp \<and> cr_premium r = tp_premium tp
     \<and> commitment r = hex64 (poseidon
           [uint (keccak (orderNumber invoice)), invoicePrice (details r), date,
            productHash (details r), salt (details r), selectedTier (details r)])
     \<and> length (commitment r) = 66
     \<and> take 2 (commitment r) = ''0x''
     \<and> list_all (is_digit 16) (drop 2 (commitment r))
     \<and> StringToBigInt (commitment r) = Some (poseidon
           [uint (keccak (orderNumber invoice)), invoicePrice (details r), date,
            productHash (details r), salt (details r), selectedTier (details r)])"
proof -
  let ?c = "poseidon [uint (keccak (orderNumber invoice)), price, date,
               poseidon [uint (keccak (productId invoice))], int (bytes_value saltArray), tp_tier tp]"
  from field have c: "0 \<le> ?c" "?c < 2 ^ 256" by simp_all
  have v: "buildCommitment poseidon keccak date_getTime saltArray invoice =
     Inr \<lparr>commitment = hex64 ?c,
          details =
            \<lparr>orderHash = ethers_keccak256 keccak (orderNumber invoice), invoicePrice = price,
             invoiceDate = Math_floor (num_div (date_getTime (purchaseDate invoice)) (Finite 1000)),
             productHash = poseidon [uint (keccak (productId invoice))],
             salt = int (bytes_value saltArray), selectedTier = tp_tier tp\<rparr>,
          cr_tier = tp_tier tp, cr_premium = tp_premium tp\<rparr>"
    using price tierp date salt by (rule buildCommitment_value)
  have h: "length (hex64 ?c) = 66" "take 2 (hex64 ?c) = ''0x''"
    "list_all (is_digit 16) (drop 2 (hex64 ?c))" "StringToBigInt (hex64 ?c) = Some ?c"
    using hex64_length [OF c] hex64_digits [OF c(1)] StringToBigInt_hex64 [OF c(1)] by blast+
  show ?thesis
    unfolding v
    by (rule exI [of _ "\<lparr>commitment = hex64 ?c,
          details =
            \<lparr>orderHash = ethers_keccak256 keccak (orderNumber invoice), invoicePrice = price,
             invoiceDate = Math_floor (num_div (date_getTime (purchaseDate invoice)) (Finite 1000)),
             productHash = poseidon [uint (keccak (productId invoice))],
             salt = int (bytes_value saltArray), selectedTier = tp_tier tp\<rparr>,
          cr_tier = tp_tier tp, cr_premium = tp_premium tp\<rparr>"])
      (simp only: CommitmentResult.simps PurchaseDetails.simps date keccak_parse h)
qed

lemma rd_price: "round_double (13743208152432640625 / 68719476736) = Finite 199990000"
  by (rule round_double_eqI [where e = 27 and k = 6710550855680000]) simp_all

lemma scenario_price:
  "BigInt_of_number (Math_round (num_mul (purchasePriceUsd scenario_invoice)
      (Number_of_bigint TOKEN_MULTIPLIER))) = Inr 199990000"
proof -
  have n: "Number_of_bigint TOKEN_MULTIPLIER = Finite 1000000"
    using Number_of_safe_integer [of 1000000] by (simp add: TOKEN_MULTIPLIER_def)
  have m: "num_mul (purchasePriceUsd scenario_invoice) (Finite 1000000) = Finite 199990000"
    by (simp add: scenario_invoice_def num_mul_def rd_price)
  have r: "Math_round (Finite 199990000) = Finite 199990000"
    using Math_round_eqI [of 199990000 199990000] by simp
  show ?thesis
    using BigInt_of_integer_number [of 199990000] by (simp add: n m r)
qed

lemma scenario_date:
  "BigInt_of_number (Math_floor (num_div (Finite 1690000000000) (Finite 1000))) = Inr 1690000000"
proof -
  have "num_div (Finite 1690000000000) (Finite 1000) = Finite 1690000000"
    using round_double_int [of 1690000000] by (simp add: num_div_def)
  then show ?thesis
    using BigInt_of_integer_number [of 1690000000] by (simp add: Math_floor_def)
qed

lemma scenario_tier:
  "calculateTierAndPremium 199990000 = Inr \<lparr>tp_tier = 2, tp_premium = 3000000\<rparr>"
  by (simp add: calculateTierAndPremium_cases)

lemma toy_poseidon_field: "\<forall>xs. 0 \<le> toy_poseidon xs \<and> toy_poseidon xs < 2 ^ 256"
  by (simp add: toy_poseidon_def)

theorem buildCommitment_commitment_witness:
  "\<exists>r. buildCommitment toy_poseidon toy_keccak (\<lambda>_. Finite 1690000000000) [1, 2] scenario_invoice = Inr r
      \<and> invoicePrice (details r) = 199990000
      \<and> cr_tier r = 2 \<and> cr_premium r = 3000000
      \<and> length (commitment r) = 66
      \<and> StringToBigInt (commitment r) = Some (toy_poseidon
           [uint (toy_keccak ''A1''), 199990000, 1690000000,
            toy_poseidon [uint (toy_keccak ''X1'')], int (bytes_value [1, 2]), 2])"
proof -
  have s: "[1, 2 :: 8 word] \<noteq> []" by simp
  from buildCommitment_commitment [OF toy_poseidon_field scenario_price scenario_tier _ s,
      of "\<lambda>_. Finite 1690000000000" 1690000000 toy_keccak] scenario_date
  obtain r where r: "buildCommitment toy_poseidon toy_keccak (\<lambda>_. Finite 1690000000000) [1, 2]
        scenario_invoice = Inr r"
    "invoicePrice (details r) = 199990000"
    "productHash (details r) = toy_poseidon [uint (toy_keccak (productId scenario_invoice))]"
    "salt (details r) = int (bytes_value [1, 2])"
    "selectedTier (details r) = 2"
    "cr_tier r = 2" "cr_premium r = 3000000" "length (commitment r) = 66"
    "StringToBigInt (commitment r) = Some (toy_poseidon
           [uint (toy_keccak (orderNumber scenario_invoice)), invoicePrice (details r), 1690000000,
            productHash (details r), salt (details r), selectedTier (details r)])"
    by auto
  then show ?thesis by (intro exI [of _ r]) (simp add: scenario_invoice_def)
qed

section \<open>Claim submission\<close>

lemma ledger_checks_calls:
  "set (snd (ledger_checks v sg formattedRoot policy))
     \<subseteq> insert Call_priceMerkleRoot (range Call_policies)"
  by (auto simp: ledger_checks_def Let_def split: sum.splits if_splits)

lemma ledger_checks_pass:
  assumes "fst (ledger_checks v sg formattedRoot policy) = Inr u"
  shows "\<exists>n onChainRoot sp w.
           StringToBigInt (policyId policy) = Some n
           \<and> priceMerkleRoot v = Inr onChainRoot
           \<and> policies v n = Inr sp
           \<and> toLowerCase onChainRoot = toLowerCase formattedRoot
           \<and> getAddress sg = Inr w
           \<and> toLowerCase (buyer sp) = toLowerCase w
           \<and> \<not> alreadyClaimed sp"
  using assms
  by (auto simp: ledger_checks_def Let_def BigInt_of_string_def split: sum.splits if_splits option.splits)

lemma submit_steps_claimPayout:
  assumes "(\<exists>h. fst (submit_steps env sg el oracleProof policy) = Inr h)
           \<or> (\<exists>args. Call_claimPayout args \<in> set (snd (submit_steps env sg el oracleProof policy)))"
  shows "\<exists>v u. getInsuranceVaultContractWithSigner env sg = Inr v
           \<and> fst (ledger_checks v sg (formatMerkleRoot (ce_merkleRoot el)) policy) = Inr u"
proof (cases "generateClaimProof env policy oracleProof (ce_merkleRoot el)")
  case (Inl e)
  with assms show ?thesis by (simp add: submit_steps_def)
next
  case pr: (Inr proofResult)
  show ?thesis
  proof (cases "getInsuranceVaultContractWithSigner env sg")
    case (Inl e)
    with assms pr show ?thesis by (simp add: submit_steps_def)
  next
    case v: (Inr v)
    obtain res reads where lc:
      "ledger_checks v sg (formatMerkleRoot (ce_merkleRoot el)) policy = (res, reads)"
      by (cases "ledger_checks v sg (formatMerkleRoot (ce_merkleRoot el)) policy")
    show ?thesis
    proof (cases res)
      case (Inl e)
      have "set reads \<subseteq> insert Call_priceMerkleRoot (range Call_policies)"
        using ledger_checks_calls [of v sg "formatMerkleRoot (ce_merkleRoot el)" policy]
        by (simp add: lc)
      then have "\<And>args. Call_claimPayout args \<notin> set reads" by auto
      with assms pr v lc Inl show ?thesis by (simp add: submit_steps_def)
    next
      case (Inr u)
      with v lc show ?thesis by simp
    qed
  qed
qed

lemma handleSubmitClaim_alerted:
  assumes "address wallet = None \<or> address wallet = Some [] \<or> signer wallet = None
           \<or> Option.bind (Option.bind (claimStates (policyId policy)) cs_eligibility) ce_proof = None
           \<or> \<not> is_policy_id (policyId policy)"
  shows "\<exists>msg. handleSubmitClaim env wallet claimStates rt policy =
           \<lparr>outcome = Alerted msg, ledger_calls = [], claimStates_after = claimStates,
            runtime_after = rt\<rparr>"
  using assms by (auto simp: handleSubmitClaim_def Let_def split: option.splits)

lemma handleSubmitClaim_claimPayout:
  assumes "(\<exists>h. outcome (handleSubmitClaim env wallet claimStates rt policy) = Submitted h)
           \<or> (\<exists>args. Call_claimPayout args
                  \<in> set (ledger_calls (handleSubmitClaim env wallet claimStates rt policy)))"
  shows "\<exists>sg cs el v u.
           signer wallet = Some sg
           \<and> claimStates (policyId policy) = Some cs \<and> cs_eligibility cs = Some el
           \<and> getInsuranceVaultContractWithSigner env sg = Inr v
           \<and> fst (ledger_checks v sg (formatMerkleRoot (ce_merkleRoot el)) policy) = Inr u"
proof -
  let ?R = "handleSubmitClaim env wallet claimStates rt policy"
  let ?pid = "policyId policy"
  have not_alerted: "\<not> (address wallet = None \<or> address wallet = Some [] \<or> signer wallet = None
           \<or> Option.bind (Option.bind (claimStates ?pid) cs_eligibility) ce_proof = None
           \<or> \<not> is_policy_id ?pid)"
  proof
    assume "address wallet = None \<or> address wallet = Some [] \<or> signer wallet = None
           \<or> Option.bind (Option.bind (claimStates ?pid) cs_eligibility) ce_proof = None
           \<or> \<not> is_policy_id ?pid"
    with handleSubmitClaim_alerted [of wallet claimStates policy env rt] obtain msg where
      "?R = \<lparr>outcome = Alerted msg, ledger_calls = [], claimStates_after = claimStates,
            runtime_after = rt\<rparr>" by blast
    with assms show False by simp
  qed
  then have connected: "\<not> (address wallet = None \<or> address wallet = Some [] \<or> signer wallet = None)"
    and valid: "is_policy_id ?pid" by blast+
  from connected obtain sg where sg: "signer wallet = Some sg" by auto
  from connected obtain addr where addr: "address wallet = Some addr" "addr \<noteq> []" by auto
  from not_alerted obtain oracleProof where
    op: "Option.bind (Option.bind (claimStates ?pid) cs_eligibility) ce_proof = Some oracleProof"
    by auto
  then obtain cs el where cs: "claimStates ?pid = Some cs" "cs_eligibility cs = Some el"
    by (auto simp: bind_eq_Some_conv)
  let ?steps = "submit_steps env sg el oracleProof policy"
  have R: "?R = (case fst ?steps of
                 Inl e \<Rightarrow>
                   \<lparr>outcome = Failed e, ledger_calls = snd ?steps,
                    claimStates_after = updateClaimState
                       (updateClaimState claimStates ?pid
                             (no_change\<lparr>p_status := Some CS_claiming, p_error := Some None\<rparr>)) ?pid
                       (no_change\<lparr>p_status := Some CS_error, p_error := Some (Some e)\<rparr>),
                    runtime_after = rt\<rparr>
               | Inr receiptHash \<Rightarrow>
                   \<lparr>outcome = Submitted receiptHash, ledger_calls = snd ?steps,
                    claimStates_after = updateClaimState
                       (updateClaimState claimStates ?pid
                             (no_change\<lparr>p_status := Some CS_claiming, p_error := Some None\<rparr>)) ?pid
                       (no_change\<lparr>p_status := Some CS_claimed, p_txHash := Some receiptHash\<rparr>),
                    runtime_after = snd (mergePolicyForAddress rt addr ?pid
                       (claimed_updates env policy el oracleProof receiptHash))\<rparr>)"
    using addr op valid sg cs by (simp add: handleSubmitClaim_def Let_def)
  have "(\<exists>h. fst ?steps = Inr h) \<or> (\<exists>args. Call_claimPayout args \<in> set (snd ?steps))"
    using assms unfolding R by (cases "fst ?steps") auto
  from submit_steps_claimPayout [OF this] sg cs show ?thesis by blast
qed

lemma handleSubmitClaim_attempt:
  assumes "address wallet = Some addr" "addr \<noteq> []" "signer wallet = Some sg"
    and "claimStates (policyId policy) = Some cs" "cs_eligibility cs = Some el"
    and "ce_proof el = Some oracleProof" "is_policy_id (policyId policy)"
  shows "handleSubmitClaim env wallet claimStates rt policy =
     (case fst (submit_steps env sg el oracleProof policy) of
        Inl e \<Rightarrow>
          \<lparr>outcome = Failed e, ledger_calls = snd (submit_steps env sg el oracleProof policy),
           claimStates_after = updateClaimState
              (updateClaimState claimStates (policyId policy)
                 (no_change\<lparr>p_status := Some CS_claiming, p_error := Some None\<rparr>))
              (policyId policy) (no_change\<lparr>p_status := Some CS_error, p_error := Some (Some e)\<rparr>),
           runtime_after = rt\<rparr>
      | Inr receiptHash \<Rightarrow>
          \<lparr>outcome = Submitted receiptHash,
           ledger_calls = snd (submit_steps env sg el oracleProof policy),
           claimStates_after = updateClaimState
              (updateClaimState claimStates (policyId policy)
                 (no_change\<lparr>p_status := Some CS_claiming, p_error := Some None\<rparr>))
              (policyId policy)
              (no_change\<lparr>p_status := Some CS_claimed, p_txHash := Some receiptHash\<rparr>),
           runtime_after = snd (mergePolicyForAddress rt addr (policyId policy)
              (claimed_updates env policy el oracleProof receiptHash))\<rparr>)"
  using assms by (simp add: handleSubmitClaim_def Let_def)

lemma handleSubmitClaim_failed_checks:
  assumes "address wallet = Some addr" "addr \<noteq> []" "signer wallet = Some sg"
    and "claimStates (policyId policy) = Some cs" "cs_eligibility cs = Some el"
    and "ce_proof el = Some oracleProof" "is_policy_id (policyId policy)"
    and "generateClaimProof env policy oracleProof (ce_merkleRoot el) = Inr proofResult"
    and "getInsuranceVaultContractWithSigner env sg = Inr v"
    and "ledger_checks v sg (formatMerkleRoot (ce_merkleRoot el)) policy = (Inl e, reads)"
  shows "outcome (handleSubmitClaim env wallet claimStates rt policy) = Failed e
    \<and> ledger_calls (handleSubmitClaim env wallet claimStates rt policy) = reads
    \<and> runtime_after (handleSubmitClaim env wallet claimStates rt policy) = rt"
proof -
  have "submit_steps env sg el oracleProof policy = (Inl e, reads)"
    using assms(8-10) by (simp add: submit_steps_def)
  then show ?thesis
    using assms(1-7) by (simp add: handleSubmitClaim_def Let_def)
qed

lemma ledger_checks_stale:
  assumes "StringToBigInt (policyId policy) = Some n" "priceMerkleRoot v = Inr onChainRoot"
    and "policies v n = Inr sp" "toLowerCase onChainRoot \<noteq> toLowerCase formattedRoot"
  shows "ledger_checks v sg formattedRoot policy
           = (Inl stale_root_error, [Call_priceMerkleRoot, Call_policies n])"
  using assms by (simp add: ledger_checks_def BigInt_of_string_def)

lemma ledger_checks_claimed:
  assumes "StringToBigInt (policyId policy) = Some n" "priceMerkleRoot v = Inr onChainRoot"
    and "policies v n = Inr sp" "toLowerCase onChainRoot = toLowerCase formattedRoot"
    and "getAddress sg = Inr w" "toLowerCase (buyer sp) = toLowerCase w" "alreadyClaimed sp"
  shows "ledger_checks v sg formattedRoot policy
           = (Inl already_claimed_error, [Call_priceMerkleRoot, Call_policies n])"
  using assms by (simp add: ledger_checks_def BigInt_of_string_def)

lemma not_submitted_store_unchanged:
  assumes "\<forall>h. outcome (handleSubmitClaim env wallet claimStates rt policy) \<noteq> Submitted h"
  shows "runtime_after (handleSubmitClaim env wallet claimStates rt policy) = rt"
  using assms
  by (auto simp: handleSubmitClaim_def Let_def split: option.splits sum.splits if_splits)


text \<open>
  C3, amended: when the ledger record of the policy has \<open>alreadyClaimed\<close> set, no
  \<open>claimPayout\<close> is ever called, the attempt does not succeed and the store is left as it
  was; the flag is learned from the ledger, so the two reads (\<open>priceMerkleRoot\<close>,
  \<open>policies\<close>) are issued first; and the failure is the already-claimed error once the
  checks made before it (wallet, snapshot with proof, policy id, proof generation, root,
  buyer) have passed.
\<close>

theorem already_claimed_is_rejected:
  assumes "signer wallet = Some sg"
    and "getInsuranceVaultContractWithSigner env sg = Inr v"
    and "StringToBigInt (policyId policy) = Some n"
    and "policies v n = Inr sp" "alreadyClaimed sp"
  shows "(\<forall>args. Call_claimPayout args
              \<notin> set (ledger_calls (handleSubmitClaim env wallet claimStates rt policy)))
    \<and> (\<forall>h. outcome (handleSubmitClaim env wallet claimStates rt policy) \<noteq> Submitted h)
    \<and> runtime_after (handleSubmitClaim env wallet claimStates rt policy) = rt
    \<and> (address wallet = Some addr \<and> addr \<noteq> []
         \<and> claimStates (policyId policy) = Some cs \<and> cs_eligibility cs = Some el
         \<and> ce_proof el = Some oracleProof \<and> is_policy_id (policyId policy)
         \<and> generateClaimProof env policy oracleProof (ce_merkleRoot el) = Inr proofResult
         \<and> priceMerkleRoot v = Inr onChainRoot
         \<and> toLowerCase onChainRoot = toLowerCase (formatMerkleRoot (ce_merkleRoot el))
         \<and> getAddress sg = Inr w \<and> toLowerCase (buyer sp) = toLowerCase w
        \<longrightarrow> outcome (handleSubmitClaim env wallet claimStates rt policy) = Failed already_claimed_error
            \<and> ledger_calls (handleSubmitClaim env wallet claimStates rt policy)
                = [Call_priceMerkleRoot, Call_policies n])"
proof -
  let ?R = "handleSubmitClaim env wallet claimStates rt policy"
  have no: "\<not> ((\<exists>h. outcome ?R = Submitted h)
           \<or> (\<exists>args. Call_claimPayout args \<in> set (ledger_calls ?R)))"
  proof
    assume "(\<exists>h. outcome ?R = Submitted h) \<or> (\<exists>args. Call_claimPayout args \<in> set (ledger_calls ?R))"
    from handleSubmitClaim_claimPayout [OF this] assms(1,2)
    obtain el' :: ClaimEligibilityState and u where "fst (ledger_checks v sg (formatMerkleRoot (ce_merkleRoot el')) policy) = Inr u"
      by auto
    from ledger_checks_pass [OF this] assms(3,4,5) show False by auto
  qed
  then have 1: "\<forall>args. Call_claimPayout args \<notin> set (ledger_calls ?R)"
    and 2: "\<forall>h. outcome ?R \<noteq> Submitted h" by blast+
  from 2 have 3: "runtime_after ?R = rt" by (rule not_submitted_store_unchanged)
  have 4: "outcome ?R = Failed already_claimed_error
            \<and> ledger_calls ?R = [Call_priceMerkleRoot, Call_policies n]"
    if h: "address wallet = Some addr \<and> addr \<noteq> []
         \<and> claimStates (policyId policy) = Some cs \<and> cs_eligibility cs = Some el
         \<and> ce_proof el = Some oracleProof \<and> is_policy_id (policyId policy)
         \<and> generateClaimProof env policy oracleProof (ce_merkleRoot el) = Inr proofResult
         \<and> priceMerkleRoot v = Inr onChainRoot
         \<and> toLowerCase onChainRoot = toLowerCase (formatMerkleRoot (ce_merkleRoot el))
         \<and> getAddress sg = Inr w \<and> toLowerCase (buyer sp) = toLowerCase w"
  proof -
    from h assms(3,4,5) have "ledger_checks v sg (formatMerkleRoot (ce_merkleRoot el)) policy
           = (Inl already_claimed_error, [Call_priceMerkleRoot, Call_policies n])"
      by (intro ledger_checks_claimed [where w = w and onChainRoot = onChainRoot and sp = sp]) simp_all
    with h assms(1,2) show ?thesis
      using handleSubmitClaim_failed_checks [of wallet addr sg claimStates policy cs el oracleProof
          env proofResult v already_claimed_error "[Call_priceMerkleRoot, Call_policies n]" rt]
      by simp
  qed
  from 1 2 3 4 show ?thesis by blast
qed

lemma parse_7: "StringToBigInt ''7'' = Some 7"
  by (simp add: StringToBigInt_def trim_def is_whitespace_def startsWith_def parse_digits_def
      is_digit_def digit_value_def digits_value_def)

lemma parse_0x01: "StringToBigInt ''0x01'' = Some 1"
  by (simp add: StringToBigInt_def trim_def is_whitespace_def startsWith_def parse_digits_def
      is_digit_def digit_value_def digits_value_def)

lemma policy_id_7: "is_policy_id ''7''"
  by (simp add: is_policy_id_def)

lemma format_0x01: "formatMerkleRoot ''0x01'' = hex64 1"
  by (simp add: formatMerkleRoot_parsed parse_0x01)

lemma root_2_differs: "toLowerCase (hex64 2) \<noteq> toLowerCase (formatMerkleRoot ''0x01'')"
  by (rule different_values_different_text [of _ 1]) (simp_all add: parse_0x01 StringToBigInt_hex64)

lemma example_reaches_checks:
  assumes "ledger_checks (example_vault flag onChain) example_signer (hex64 1) example_policy
             = (Inl e, reads)"
  shows "outcome (handleSubmitClaim (example_env (example_vault flag onChain)) example_wallet
            example_claimStates empty_browser example_policy) = Failed e
    \<and> ledger_calls (handleSubmitClaim (example_env (example_vault flag onChain)) example_wallet
            example_claimStates empty_browser example_policy) = reads"
proof -
  have "outcome (handleSubmitClaim (example_env (example_vault flag onChain)) example_wallet
            example_claimStates empty_browser example_policy) = Failed e
    \<and> ledger_calls (handleSubmitClaim (example_env (example_vault flag onChain)) example_wallet
            example_claimStates empty_browser example_policy) = reads
    \<and> runtime_after (handleSubmitClaim (example_env (example_vault flag onChain)) example_wallet
            example_claimStates empty_browser example_policy) = empty_browser"
  proof (rule handleSubmitClaim_failed_checks)
    show "address example_wallet = Some ''0xab''" by (simp add: example_wallet_def)
    show "''0xab'' \<noteq> []" by simp
    show "signer example_wallet = Some example_signer" by (simp add: example_wallet_def)
    show "example_claimStates (policyId example_policy) =
        Some \<lparr>cs_status = CS_eligible, cs_eligibility = Some example_snapshot,
                 cs_error = None, txHash = None\<rparr>"
      by (simp add: example_claimStates_def example_policy_def)
    show "cs_eligibility \<lparr>cs_status = CS_eligible, cs_eligibility = Some example_snapshot,
                 cs_error = None, txHash = None\<rparr> = Some example_snapshot" by simp
    show "ce_proof example_snapshot = Some scenario_proof" by (simp add: example_snapshot_def)
    show "is_policy_id (policyId example_policy)" by (simp add: example_policy_def policy_id_7)
    show "generateClaimProof (example_env (example_vault flag onChain)) example_policy scenario_proof
            (ce_merkleRoot example_snapshot) = Inr
        \<lparr>proof_a = (''1'', ''2''), proof_b = ((''3'', ''4''), (''5'', ''6'')), proof_c = (''7'', ''8''),
         publicSignals = [''1'', ''2'']\<rparr>"
      by (simp add: example_env_def)
    show "getInsuranceVaultContractWithSigner (example_env (example_vault flag onChain)) example_signer
            = Inr (example_vault flag onChain)"
      by (simp add: example_env_def)
    show "ledger_checks (example_vault flag onChain) example_signer
            (formatMerkleRoot (ce_merkleRoot example_snapshot)) example_policy = (Inl e, reads)"
      using assms by (simp add: example_snapshot_def format_0x01)
  qed
  then show ?thesis by blast
qed

lemma example_claimed_checks:
  "ledger_checks (example_vault True (hex64 1)) example_signer (hex64 1) example_policy
     = (Inl already_claimed_error, [Call_priceMerkleRoot, Call_policies 7])"
  by (rule ledger_checks_claimed [where w = "''0xab''" and onChainRoot = "hex64 1"
        and sp = "\<lparr>buyer = ''0xAB'', lp_commitment = ''0x0b'', premiumPaid = 3000000,
             lp_purchaseDate = 1700000000, alreadyClaimed = True\<rparr>"])
     (simp_all add: example_policy_def parse_7 example_vault_def example_signer_def
        lower_AB lower_ab)

lemma example_stale_checks:
  "ledger_checks (example_vault flag (hex64 2)) example_signer (hex64 1) example_policy
     = (Inl stale_root_error, [Call_priceMerkleRoot, Call_policies 7])"
  using root_2_differs
  by (intro ledger_checks_stale [where onChainRoot = "hex64 2"
        and sp = "\<lparr>buyer = ''0xAB'', lp_commitment = ''0x0b'', premiumPaid = 3000000,
             lp_purchaseDate = 1700000000, alreadyClaimed = flag\<rparr>"])
     (simp_all add: example_policy_def parse_7 example_vault_def format_0x01)

text \<open>
  C3, as stated: the attempt fails with the already-claimed error and no ledger call is
  issued. The handler reads the ledger before it can see the flag, so two calls are issued;
  and the root is checked first, so with a stale root as well the error is the stale-root
  one.
\<close>

theorem already_claimed_reads_ledger_counterexample:
  "alreadyClaimed (projr (policies (example_vault True (hex64 1)) 7))
   \<and> ledger_calls (handleSubmitClaim (example_env (example_vault True (hex64 1))) example_wallet
        example_claimStates empty_browser example_policy) = [Call_priceMerkleRoot, Call_policies 7]
   \<and> alreadyClaimed (projr (policies (example_vault True (hex64 2)) 7))
   \<and> outcome (handleSubmitClaim (example_env (example_vault True (hex64 2))) example_wallet
        example_claimStates empty_browser example_policy) = Failed stale_root_error
   \<and> stale_root_error \<noteq> already_claimed_error"
  using example_reaches_checks [OF example_claimed_checks]
    example_reaches_checks [OF example_stale_checks [of True]]
  by (simp add: example_vault_def stale_root_error_def already_claimed_error_def)

theorem already_claimed_is_rejected_witness:
  "outcome (handleSubmitClaim (example_env (example_vault True (hex64 1))) example_wallet
        example_claimStates empty_browser example_policy) = Failed already_claimed_error
   \<and> ledger_calls (handleSubmitClaim (example_env (example_vault True (hex64 1))) example_wallet
        example_claimStates empty_browser example_policy) = [Call_priceMerkleRoot, Call_policies 7]
   \<and> runtime_after (handleSubmitClaim (example_env (example_vault True (hex64 1))) example_wallet
        example_claimStates empty_browser example_policy) = empty_browser"
proof -
  let ?v = "example_vault True (hex64 1)"
  let ?sp = "\<lparr>buyer = ''0xAB'', lp_commitment = ''0x0b'', premiumPaid = 3000000,
             lp_purchaseDate = 1700000000, alreadyClaimed = True\<rparr>"
  let ?cs = "\<lparr>cs_status = CS_eligible, cs_eligibility = Some example_snapshot,
             cs_error = None, txHash = None\<rparr>"
  let ?pr = "\<lparr>proof_a = (''1'', ''2''), proof_b = ((''3'', ''4''), (''5'', ''6'')),
             proof_c = (''7'', ''8''), publicSignals = [''1'', ''2'']\<rparr>"
  have a: "signer example_wallet = Some example_signer" by (simp add: example_wallet_def)
  have b: "getInsuranceVaultContractWithSigner (example_env ?v) example_signer = Inr ?v"
    by (simp add: example_env_def)
  have c: "StringToBigInt (policyId example_policy) = Some 7"
    by (simp add: example_policy_def parse_7)
  have d: "policies ?v 7 = Inr ?sp" by (simp add: example_vault_def)
  have e: "alreadyClaimed ?sp" by simp
  note t = already_claimed_is_rejected [where wallet = example_wallet and sg = example_signer
      and env = "example_env ?v" and v = ?v and policy = example_policy and n = 7 and sp = ?sp
      and claimStates = example_claimStates and rt = empty_browser and addr = "''0xab''"
      and cs = ?cs and el = example_snapshot and oracleProof = scenario_proof
      and proofResult = ?pr and onChainRoot = "hex64 1" and w = "''0xab''", OF a b c d e]
  have pre: "address example_wallet = Some ''0xab'' \<and> ''0xab'' \<noteq> []
         \<and> example_claimStates (policyId example_policy) = Some ?cs
         \<and> cs_eligibility ?cs = Some example_snapshot
         \<and> ce_proof example_snapshot = Some scenario_proof \<and> is_policy_id (policyId example_policy)
         \<and> generateClaimProof (example_env ?v) example_policy scenario_proof
              (ce_merkleRoot example_snapshot) = Inr ?pr
         \<and> priceMerkleRoot ?v = Inr (hex64 1)
         \<and> toLowerCase (hex64 1) = toLowerCase (formatMerkleRoot (ce_merkleRoot example_snapshot))
         \<and> getAddress example_signer = Inr ''0xab''
         \<and> toLowerCase (buyer ?sp) = toLowerCase ''0xab''"
    by (simp add: example_wallet_def example_claimStates_def example_policy_def example_snapshot_def
        policy_id_7 example_env_def example_vault_def format_0x01 example_signer_def lower_AB lower_ab)
  from t pre show ?thesis by blast
qed


lemma parse_premium: "StringToBigInt ''3000000'' = Some 3000000"
  by (simp add: StringToBigInt_def trim_def is_whitespace_def startsWith_def parse_digits_def
      is_digit_def digit_value_def digits_value_def)

lemma parse_1: "StringToBigInt ''1'' = Some 1"
  by (simp add: StringToBigInt_def trim_def is_whitespace_def startsWith_def parse_digits_def
      is_digit_def digit_value_def digits_value_def)

lemma parse_2: "StringToBigInt ''2'' = Some 2"
  by (simp add: StringToBigInt_def trim_def is_whitespace_def startsWith_def parse_digits_def
      is_digit_def digit_value_def digits_value_def)

lemma example_passing_checks:
  "ledger_checks (example_vault False (hex64 1)) example_signer (hex64 1) example_policy
     = (Inr (), [Call_priceMerkleRoot, Call_policies 7])"
  by (simp add: ledger_checks_def BigInt_of_string_def example_policy_def parse_7 example_vault_def
      example_signer_def lower_AB lower_ab)

lemma example_args:
  "claim_args (example_env v) example_policy
      \<lparr>proof_a = (''1'', ''2''), proof_b = ((''3'', ''4''), (''5'', ''6'')), proof_c = (''7'', ''8''),
       publicSignals = [''1'', ''2'']\<rparr> (hex64 1)
   = Inr \<lparr>a_policyId = 7, a_commitment = ''0x0b'', a_merkleRoot = hex64 1,
          a_policyPurchaseDate = 1700000000, a_premiumPaid = 3000000, a_proofA = (''1'', ''2''),
          a_proofB = ((''3'', ''4''), (''5'', ''6'')), a_proofC = (''7'', ''8''),
          a_publicSignals = [1, 2]\<rparr>"
  using BigInt_of_integer_number [of 1700000000]
  by (simp add: claim_args_def BigInt_of_string_def example_policy_def parse_7 parse_premium
      example_env_def formatPublicSignals_def parse_1 parse_2)

text \<open>
  A run in which every check passes: the claim is sent after the two reads, and the stored
  record becomes claimed.
\<close>

lemma example_successful_claim:
  "outcome (handleSubmitClaim (example_env (example_vault False (hex64 1))) example_wallet
      example_claimStates (savePolicyForAddress empty_browser ''0xAB'' example_policy) example_policy)
     = Submitted ''0xdd''
   \<and> ledger_calls (handleSubmitClaim (example_env (example_vault False (hex64 1))) example_wallet
      example_claimStates (savePolicyForAddress empty_browser ''0xAB'' example_policy) example_policy)
     = [Call_priceMerkleRoot, Call_policies 7,
        Call_claimPayout
          \<lparr>a_policyId = 7, a_commitment = ''0x0b'', a_merkleRoot = hex64 1,
           a_policyPurchaseDate = 1700000000, a_premiumPaid = 3000000, a_proofA = (''1'', ''2''),
           a_proofB = ((''3'', ''4''), (''5'', ''6'')), a_proofC = (''7'', ''8''),
           a_publicSignals = [1, 2]\<rparr>]
   \<and> map status (getPoliciesForAddress
        (runtime_after (handleSubmitClaim (example_env (example_vault False (hex64 1))) example_wallet
           example_claimStates (savePolicyForAddress empty_browser ''0xAB'' example_policy)
           example_policy)) ''0xab'')
     = [Some Claimed]"
proof -
  let ?v = "example_vault False (hex64 1)"
  let ?rt = "savePolicyForAddress empty_browser ''0xAB'' example_policy"
  have steps: "submit_steps (example_env ?v) example_signer example_snapshot scenario_proof example_policy
     = (Inr ''0xdd'', [Call_priceMerkleRoot, Call_policies 7,
        Call_claimPayout
          \<lparr>a_policyId = 7, a_commitment = ''0x0b'', a_merkleRoot = hex64 1,
           a_policyPurchaseDate = 1700000000, a_premiumPaid = 3000000, a_proofA = (''1'', ''2''),
           a_proofB = ((''3'', ''4''), (''5'', ''6'')), a_proofC = (''7'', ''8''),
           a_publicSignals = [1, 2]\<rparr>])"
  proof -
    let ?pr = "\<lparr>proof_a = (''1'', ''2''), proof_b = ((''3'', ''4''), (''5'', ''6'')),
               proof_c = (''7'', ''8''), publicSignals = [''1'', ''2'']\<rparr>"
    have gp: "generateClaimProof (example_env ?v) example_policy scenario_proof
                (ce_merkleRoot example_snapshot) = Inr ?pr"
      by (simp add: example_env_def)
    have gv: "getInsuranceVaultContractWithSigner (example_env ?v) example_signer = Inr ?v"
      by (simp add: example_env_def)
    have fr: "formatMerkleRoot (ce_merkleRoot example_snapshot) = hex64 1"
      by (simp add: example_snapshot_def format_0x01)
    have sc: "send_claim ?v args = Inr ''0xdd''" for args
      by (simp add: send_claim_def example_vault_def)
    show ?thesis
      by (simp only: submit_steps_def Let_def fr gp gv sum.case example_passing_checks prod.case
          example_args sc append.simps)
  qed
  have g: "getPoliciesForAddress ?rt ''0xab'' = [example_policy]"
    by (simp add: get_save key_AB key_ab get_empty_items empty_browser_def)
  have i: "findIndex (\<lambda>q. policyId q = ''7'') [example_policy] = Some 0"
    by (simp add: example_policy_def)
  have w: "?rt = Browser \<lparr>items = [''zkpp_policies_0xab'' \<mapsto> [example_policy]], writable = True\<rparr>"
    by (simp add: savePolicyForAddress_def empty_browser_def key_AB getPoliciesForAddress_def
        setItem_def)
  have m: "getPoliciesForAddress (snd (mergePolicyForAddress ?rt ''0xab'' ''7'' u)) ''0xab''
        = [merge_policy u example_policy]" for u
    unfolding mergePolicyForAddress_def get_update g i by (simp add: w)
  have att: "handleSubmitClaim (example_env ?v) example_wallet example_claimStates ?rt example_policy =
     (case fst (submit_steps (example_env ?v) example_signer example_snapshot scenario_proof
                  example_policy) of
        Inl e \<Rightarrow>
          \<lparr>outcome = Failed e,
           ledger_calls = snd (submit_steps (example_env ?v) example_signer example_snapshot
                                 scenario_proof example_policy),
           claimStates_after = updateClaimState
              (updateClaimState example_claimStates (policyId example_policy)
                 (no_change\<lparr>p_status := Some CS_claiming, p_error := Some None\<rparr>))
              (policyId example_policy)
              (no_change\<lparr>p_status := Some CS_error, p_error := Some (Some e)\<rparr>),
           runtime_after = ?rt\<rparr>
      | Inr receiptHash \<Rightarrow>
          \<lparr>outcome = Submitted receiptHash,
           ledger_calls = snd (submit_steps (example_env ?v) example_signer example_snapshot
                                 scenario_proof example_policy),
           claimStates_after = updateClaimState
              (updateClaimState example_claimStates (policyId example_policy)
                 (no_change\<lparr>p_status := Some CS_claiming, p_error := Some None\<rparr>))
              (policyId example_policy)
              (no_change\<lparr>p_status := Some CS_claimed, p_txHash := Some receiptHash\<rparr>),
           runtime_after = snd (mergePolicyForAddress ?rt ''0xab'' (policyId example_policy)
              (claimed_updates (example_env ?v) example_policy example_snapshot scenario_proof
                 receiptHash))\<rparr>)"
  proof (rule handleSubmitClaim_attempt)
    show "address example_wallet = Some ''0xab''" by (simp add: example_wallet_def)
    show "''0xab'' \<noteq> []" by simp
    show "signer example_wallet = Some example_signer" by (simp add: example_wallet_def)
    show "example_claimStates (policyId example_policy) =
        Some \<lparr>cs_status = CS_eligible, cs_eligibility = Some example_snapshot,
                 cs_error = None, txHash = None\<rparr>"
      by (simp add: example_claimStates_def example_policy_def)
    show "cs_eligibility \<lparr>cs_status = CS_eligible, cs_eligibility = Some example_snapshot,
                 cs_error = None, txHash = None\<rparr> = Some example_snapshot" by simp
    show "ce_proof example_snapshot = Some scenario_proof" by (simp add: example_snapshot_def)
    show "is_policy_id (policyId example_policy)" by (simp add: example_policy_def policy_id_7)
  qed
  have pid: "policyId example_policy = ''7''" by (simp add: example_policy_def)
  show ?thesis
    unfolding att steps by (simp add: pid m merge_policy_def claimed_updates_def spread_opt_def)
qed

end
